theory Spec2Isabelle
  imports Complex_Main "HOL-Library.Char_ord" "HOL-Library.List_Lexorder"
begin

section \<open>Data model\<close>

text \<open>
  The program (\<^verbatim>\<open>app.py\<close>) is one Streamlit script over a pandas DataFrame read
  from a Google sheet. A DataFrame cell is a Python object: the missing value, a text,
  a number or a truth value. Python's \<^verbatim>\<open>int\<close> and \<^verbatim>\<open>float\<close> are both
  \<open>Num\<close>, an exact rational: the script only uses the value of a number (sums,
  \<^verbatim>\<open>> 0\<close>). What machine numbers add to that is not modelled: the rounding of
  \<^verbatim>\<open>float64\<close> sums, the wrap-around of \<^verbatim>\<open>int64\<close> sums, and the infinite values
  on which \<^verbatim>\<open>int(..)\<close> raises.
\<close>

datatype cell = NaN | Str string | Num rat | Bool bool

text \<open>
  A row gives a cell for every column name; a DataFrame holds the missing value where a
  row has nothing for a column. The row labels (the index) are left out: the script
  reads rows by position only.
\<close>

type_synonym row = "string \<Rightarrow> cell"

record frame =
  columns :: "string list"
  rows :: "row list"

text \<open>The exceptions the script can raise.\<close>

datatype error =
  NameError string | KeyError string | IndexError | TypeError | StreamlitAPIException

text \<open>\<^verbatim>\<open>pd.DataFrame()\<close> and \<^verbatim>\<open>df.empty\<close> (an axis of length 0).\<close>

definition DataFrame :: frame where
  "DataFrame = \<lparr>columns = [], rows = []\<rparr>"

definition df_empty :: "frame \<Rightarrow> bool" where
  "df_empty df = (rows df = [] \<or> columns df = [])"

text \<open>
  The library functions the script calls on cell contents are parameters of the model:
  \<^item> \<open>to_datetime col s\<close>: \<^verbatim>\<open>pd.to_datetime(col, errors='coerce')\<close> at the text
    \<open>s\<close> of the column \<open>col\<close> (pandas may infer the format from the whole column), as
    nanoseconds since the epoch; \<open>None\<close> is \<^verbatim>\<open>NaT\<close>;
  \<^item> \<open>to_numeric s\<close>: \<^verbatim>\<open>pd.to_numeric(.., errors='coerce')\<close> at a text; \<open>None\<close> is
    \<^verbatim>\<open>NaN\<close>;
  \<^item> \<open>num_str x\<close>: \<^verbatim>\<open>str(x)\<close> of a number, as \<^verbatim>\<open>astype(str)\<close> gives it;
  \<^item> \<open>strftime d\<close>: \<^verbatim>\<open>d.strftime("%Y-%m-%d")\<close> of a date, given in days since
    the epoch;
  \<^item> \<open>argsort ks\<close>: \<^verbatim>\<open>ks.argsort(kind='quicksort')\<close> of numpy, the positions of the
    keys \<open>ks\<close> in ascending order of key. That sort is not stable: the order it gives
    positions of equal keys is its own.
\<close>

record lib =
  to_datetime :: "string list \<Rightarrow> string \<Rightarrow> int option"
  to_numeric :: "string \<Rightarrow> rat option"
  num_str :: "rat \<Rightarrow> string"
  strftime :: "int \<Rightarrow> string"
  argsort :: "int list \<Rightarrow> nat list"

subsection \<open>Texts\<close>

text \<open>
  \<^verbatim>\<open>str.strip()\<close> and \<^verbatim>\<open>str.lower()\<close> on ASCII (a \<open>char\<close> is a byte): the
  white space of \<^verbatim>\<open>str.isspace\<close> below 128, and the letters A to Z.
\<close>

definition isspace :: "char \<Rightarrow> bool" where
  "isspace c = (c \<in> set [CHR 0x09, CHR 0x0A, CHR 0x0B, CHR 0x0C, CHR 0x0D,
                          CHR 0x1C, CHR 0x1D, CHR 0x1E, CHR 0x1F, CHR 0x20])"

definition strip :: "string \<Rightarrow> string" where
  "strip s = rev (dropWhile isspace (rev (dropWhile isspace s)))"

definition lower_char :: "char \<Rightarrow> char" where
  "lower_char c =
     (if CHR ''A'' \<le> c \<and> c \<le> CHR ''Z'' then char_of (of_char c + (32::nat)) else c)"

definition lower :: "string \<Rightarrow> string" where
  "lower s = map lower_char s"

text \<open>\<^verbatim>\<open>astype(str)\<close> of one cell, and \<^verbatim>\<open>fillna("N/A").astype(str)\<close>.\<close>

fun astype_str :: "lib \<Rightarrow> cell \<Rightarrow> string" where
  "astype_str L NaN = ''nan''"
| "astype_str L (Str s) = s"
| "astype_str L (Num x) = num_str L x"
| "astype_str L (Bool b) = (if b then ''True'' else ''False'')"

fun fillna_str :: "lib \<Rightarrow> cell \<Rightarrow> cell" where
  "fillna_str L NaN = Str ''N/A''"
| "fillna_str L c = Str (astype_str L c)"

section \<open>Reading the sheet (lines 39 to 52)\<close>

text \<open>
  \<^verbatim>\<open>df[col] = f(df[col])\<close> for a cell-wise \<open>f\<close>, and the loop
  \<^verbatim>\<open>for col in cols: if col in df.columns: df[col] = f(df[col])\<close>.
\<close>

definition assign_col :: "string \<Rightarrow> (cell \<Rightarrow> cell) \<Rightarrow> frame \<Rightarrow> frame" where
  "assign_col col f df = df\<lparr>rows := map (\<lambda>r. r(col := f (r col))) (rows df)\<rparr>"

definition for_cols :: "string list \<Rightarrow> (cell \<Rightarrow> cell) \<Rightarrow> frame \<Rightarrow> frame" where
  "for_cols cols f df =
     fold (\<lambda>col d. if col \<in> set (columns d) then assign_col col f d else d) cols df"

definition text_cols :: "string list" where
  "text_cols = [''Cardio Type'', ''Comments'', ''Weight Band'']"

text \<open>
  \<^verbatim>\<open>df_raw.columns = df_raw.columns.str.strip()\<close>: the columns are renamed, a row
  keeps its cells. Column names are taken to be distinct after the renaming, as the header
  row of a sheet has them; where two names strip to the same text the first column is read.
\<close>

definition strip_columns :: "frame \<Rightarrow> frame" where
  "strip_columns df =
     \<lparr>columns = map strip (columns df),
      rows = map (\<lambda>r k. case find (\<lambda>c. strip c = k) (columns df) of
                            None \<Rightarrow> NaN | Some c \<Rightarrow> r c) (rows df)\<rparr>"

text \<open>\<^verbatim>\<open>df_raw.dropna(how='all')\<close>: a row goes when every cell of it is missing.\<close>

definition all_missing :: "string list \<Rightarrow> row \<Rightarrow> bool" where
  "all_missing cols r = list_all (\<lambda>c. r c = NaN) cols"

definition dropna_all :: "frame \<Rightarrow> frame" where
  "dropna_all df = df\<lparr>rows := filter (\<lambda>r. \<not> all_missing (columns df) r) (rows df)\<rparr>"

text \<open>
  Lines 40 to 52. \<open>stored\<close> is what \<^verbatim>\<open>conn.read(ttl=0)\<close> returns, \<open>None\<close> when
  it raises: then the \<^verbatim>\<open>except\<close> branch leaves the empty DataFrame.
\<close>

definition fix_raw :: "lib \<Rightarrow> frame \<Rightarrow> frame" where
  "fix_raw L t = dropna_all (strip_columns (for_cols text_cols (fillna_str L) t))"

definition read_raw :: "lib \<Rightarrow> frame option \<Rightarrow> frame" where
  "read_raw L stored = (case stored of None \<Rightarrow> DataFrame | Some t \<Rightarrow> fix_raw L t)"

section \<open>Data processing (lines 55 to 71)\<close>

text \<open>
  The processed table \<^verbatim>\<open>df\<close>: each row with its parsed \<^verbatim>\<open>Date\<close> (a timestamp,
  nanoseconds since the epoch), its \<^verbatim>\<open>Date_Only\<close> (days since the epoch) and the
  cells of the other columns.
\<close>

record entry =
  Date :: int
  Date_Only :: int
  cells :: row

record table =
  tcolumns :: "string list"
  entries :: "entry list"

definition ns_per_day :: int where
  "ns_per_day = 86400000000000"

definition num_cols :: "string list" where
  "num_cols = [''Pullups'', ''Pushups'', ''Squats'', ''Burpees'', ''Cardio Min/Reps'',
               ''Weight'', ''Fat_Pct'', ''Waist_cm'']"

definition bool_cols :: "string list" where
  "bool_cols = [''Abs'', ''Weights'', ''Stretched'']"

text \<open>\<^verbatim>\<open>pd.to_numeric(df[col], errors='coerce').fillna(0)\<close> at one cell.\<close>

fun numeric_fix :: "lib \<Rightarrow> cell \<Rightarrow> cell" where
  "numeric_fix L NaN = Num 0"
| "numeric_fix L (Num x) = Num x"
| "numeric_fix L (Bool b) = Num (if b then 1 else 0)"
| "numeric_fix L (Str s) = (case to_numeric L s of None \<Rightarrow> Num 0 | Some x \<Rightarrow> Num x)"

text \<open>
  \<^verbatim>\<open>df[col].astype(str).str.lower().isin(['true', '1', '1.0', 'yes', 'y', 'checked'])\<close>
  at one cell.
\<close>

definition truthy_tokens :: "string list" where
  "truthy_tokens = [''true'', ''1'', ''1.0'', ''yes'', ''y'', ''checked'']"

definition bool_fix :: "lib \<Rightarrow> cell \<Rightarrow> cell" where
  "bool_fix L c = Bool (lower (astype_str L c) \<in> set truthy_tokens)"

text \<open>
  Line 57: the texts handed to \<^verbatim>\<open>pd.to_datetime\<close>, and line 58, which keeps the rows
  whose date parsed.
\<close>

definition date_texts :: "lib \<Rightarrow> frame \<Rightarrow> string list" where
  "date_texts L df = map (\<lambda>r. strip (astype_str L (r ''Date''))) (rows df)"

definition parse_date :: "lib \<Rightarrow> frame \<Rightarrow> row \<Rightarrow> int option" where
  "parse_date L df r = to_datetime L (date_texts L df) (strip (astype_str L (r ''Date'')))"

definition dated_rows :: "lib \<Rightarrow> frame \<Rightarrow> (int \<times> row) list" where
  "dated_rows L df =
     List.map_filter (\<lambda>r. case parse_date L df r of None \<Rightarrow> None | Some t \<Rightarrow> Some (t, r))
       (rows df)"

text \<open>
  Lines 56 to 71. \<^verbatim>\<open>df["Date"]\<close> raises \<^verbatim>\<open>KeyError\<close> without a Date column. The
  new column \<^verbatim>\<open>Date_Only\<close> is appended unless the sheet already has one of that name.
\<close>

definition normalize_df :: "lib \<Rightarrow> frame \<Rightarrow> error + table" where
  "normalize_df L df_raw =
     (if ''Date'' \<notin> set (columns df_raw) then Inl (KeyError ''Date'')
      else
        let dated = dated_rows L df_raw;
            cols = (if ''Date_Only'' \<in> set (columns df_raw) then columns df_raw
                    else columns df_raw @ [''Date_Only'']);
            df = \<lparr>columns = cols, rows = map snd dated\<rparr>;
            df = for_cols num_cols (numeric_fix L) df;
            df = for_cols bool_cols (bool_fix L) df
        in Inr \<lparr>tcolumns = columns df,
                entries = map (\<lambda>(t, r). \<lparr>Date = t, Date_Only = t div ns_per_day, cells = r\<rparr>)
                            (zip (map fst dated) (rows df))\<rparr>)"

section \<open>The latest entry and its comment (lines 74 to 79)\<close>

text \<open>
  \<^verbatim>\<open>sort_values(col, ascending=False)\<close> with the default sort kind: pandas reverses
  the rows, takes them in the order numpy's \<^verbatim>\<open>argsort\<close> gives the keys, and reverses
  the result. \<open>take_rows\<close> is the rows at a list of positions (numpy returns positions
  of the list only; any other is skipped).
\<close>

definition take_rows :: "'a list \<Rightarrow> nat list \<Rightarrow> 'a list" where
  "take_rows xs idx = map (\<lambda>i. xs ! i) (filter (\<lambda>i. i < length xs) idx)"

definition sort_values_desc :: "lib \<Rightarrow> ('a \<Rightarrow> int) \<Rightarrow> 'a list \<Rightarrow> 'a list" where
  "sort_values_desc L key xs = rev (take_rows (rev xs) (argsort L (map key (rev xs))))"

text \<open>
  What every sort returns: \<open>idx\<close> holds each position of \<open>ks\<close> once, and the keys at
  these positions ascend. And the one such list that keeps positions of equal keys in
  order, which is what numpy returns on the short arrays of the examples below; on longer
  arrays it need not be.
\<close>

definition is_argsort :: "int list \<Rightarrow> nat list \<Rightarrow> bool" where
  "is_argsort ks idx =
     (length idx = length ks \<and> list_all (\<lambda>i. i < length ks) idx
      \<and> list_all (\<lambda>i. i \<in> set idx) [0..<length ks] \<and> sorted (map (\<lambda>i. ks ! i) idx))"

definition stable_argsort :: "int list \<Rightarrow> nat list" where
  "stable_argsort ks = sort_key (\<lambda>i. ks ! i) [0..<length ks]"

text \<open>Line 74: \<^verbatim>\<open>.iloc[0]\<close> raises \<^verbatim>\<open>IndexError\<close> on a table without rows.\<close>

definition latest_entry :: "lib \<Rightarrow> table \<Rightarrow> error + entry" where
  "latest_entry L df =
     (case sort_values_desc L Date (entries df) of [] \<Rightarrow> Inl IndexError | e # es \<Rightarrow> Inr e)"

text \<open>
  \<^verbatim>\<open>row[col]\<close> and \<^verbatim>\<open>df[col]\<close> raise \<^verbatim>\<open>KeyError\<close> for a name that is not a
  column. (The program reads the dates through the fields \<open>Date\<close> and \<open>Date_Only\<close>.)
\<close>

definition getitem :: "table \<Rightarrow> entry \<Rightarrow> string \<Rightarrow> error + cell" where
  "getitem df e col = (if col \<in> set (tcolumns df) then Inr (cells e col) else Inl (KeyError col))"

definition getcol :: "string list \<Rightarrow> entry list \<Rightarrow> string \<Rightarrow> error + cell list" where
  "getcol cols es col =
     (if col \<in> set cols then Inr (map (\<lambda>e. cells e col) es) else Inl (KeyError col))"

text \<open>The truth value Python gives a cell in \<^verbatim>\<open>if latest_comment and ...\<close>.\<close>

fun truthy :: "cell \<Rightarrow> bool" where
  "truthy NaN = True"
| "truthy (Str s) = (s \<noteq> [])"
| "truthy (Num x) = (x \<noteq> 0)"
| "truthy (Bool b) = b"

text \<open>
  Lines 74 to 79: the banner \<^verbatim>\<open>st.info\<close> shows, as the date and the comment of the
  latest entry, or \<open>None\<close> when no banner is shown.
\<close>

definition show_banner :: "cell \<Rightarrow> bool" where
  "show_banner latest_comment = (truthy latest_comment \<and> latest_comment \<noteq> Str ''N/A'')"

definition recent_comment_banner :: "lib \<Rightarrow> table \<Rightarrow> error + (int \<times> cell) option" where
  "recent_comment_banner L df =
     (case latest_entry L df of
        Inl err \<Rightarrow> Inl err
      | Inr le \<Rightarrow>
          (case getitem df le ''Comments'' of
             Inl err \<Rightarrow> Inl err
           | Inr latest_comment \<Rightarrow>
               Inr (if show_banner latest_comment then Some (Date_Only le, latest_comment)
                    else None)))"

section \<open>Lifetime totals (lines 82 to 109)\<close>

text \<open>
  The value a cell adds to \<^verbatim>\<open>Series.sum()\<close> (a missing value is skipped), and
  \<^verbatim>\<open>int(x)\<close>, which truncates towards zero. After the numeric conversion a numeric
  column holds numbers only (lemma \<open>normalize_numeric\<close> below), so no text is summed.
\<close>

fun num_val :: "cell \<Rightarrow> rat" where
  "num_val (Num x) = x"
| "num_val (Bool b) = (if b then 1 else 0)"
| "num_val NaN = 0"
| "num_val (Str s) = 0"

definition py_int :: "rat \<Rightarrow> int" where
  "py_int x = (if x < 0 then - \<lfloor>- x\<rfloor> else \<lfloor>x\<rfloor>)"

definition sum_col :: "cell list \<Rightarrow> int" where
  "sum_col xs = py_int (sum_list (map num_val xs))"

text \<open>\<^verbatim>\<open>x == True\<close> at one cell: Python's \<^verbatim>\<open>1 == True\<close> holds.\<close>

fun eq_True :: "cell \<Rightarrow> bool" where
  "eq_True (Bool b) = b"
| "eq_True (Num x) = (x = 1)"
| "eq_True NaN = False"
| "eq_True (Str s) = False"

definition get_sum :: "table \<Rightarrow> string \<Rightarrow> int" where
  "get_sum df col =
     (if col \<in> set (tcolumns df) then sum_col (map (\<lambda>e. cells e col) (entries df)) else 0)"

definition get_count :: "table \<Rightarrow> string \<Rightarrow> nat" where
  "get_count df col =
     (if col \<in> set (tcolumns df)
      then length (filter (\<lambda>e. eq_True (cells e col)) (entries df)) else 0)"

definition get_cardio_sessions :: "table \<Rightarrow> nat" where
  "get_cardio_sessions df =
     (if ''Cardio Type'' \<in> set (tcolumns df)
      then length (filter (\<lambda>e. cells e ''Cardio Type'' \<noteq> Str ''None'') (entries df))
      else 0)"

record lifetime_totals =
  total_pullups :: int
  abs_sessions :: nat
  total_squats :: int
  weight_sessions :: nat
  total_pushups :: int
  stretch_sessions :: nat
  total_burpees :: int
  cardio_sessions :: nat
  cardio_minutes :: int

definition lifetime_stats :: "table \<Rightarrow> lifetime_totals" where
  "lifetime_stats df =
     \<lparr>total_pullups = get_sum df ''Pullups'',
      abs_sessions = get_count df ''Abs'',
      total_squats = get_sum df ''Squats'',
      weight_sessions = get_count df ''Weights'',
      total_pushups = get_sum df ''Pushups'',
      stretch_sessions = get_count df ''Stretched'',
      total_burpees = get_sum df ''Burpees'',
      cardio_sessions = get_cardio_sessions df,
      cardio_minutes = get_sum df ''Cardio Min/Reps''\<rparr>"

definition table_empty :: "table \<Rightarrow> bool" where
  "table_empty df = (entries df = [] \<or> tcolumns df = [])"

text \<open>
  Lines 55 to 109, run when \<^verbatim>\<open>df_raw\<close> is not empty: the table \<^verbatim>\<open>df\<close>, the banner
  and the lifetime totals (shown under \<^verbatim>\<open>if not df.empty\<close>).
\<close>

record processed =
  df :: table
  banner :: "(int \<times> cell) option"
  lifetime :: "lifetime_totals option"

definition and_then :: "error + 'a \<Rightarrow> ('a \<Rightarrow> error + 'b) \<Rightarrow> error + 'b" where
  "and_then m f = (case m of Inl err \<Rightarrow> Inl err | Inr x \<Rightarrow> f x)"

definition data_processing :: "lib \<Rightarrow> frame \<Rightarrow> error + processed" where
  "data_processing L df_raw =
     and_then (normalize_df L df_raw) (\<lambda>d.
     and_then (recent_comment_banner L d) (\<lambda>b.
       Inr \<lparr>df = d, banner = b,
            lifetime = (if table_empty d then None else Some (lifetime_stats d))\<rparr>))"

section \<open>Filtering (lines 112 to 155)\<close>

datatype time_view = Full_History | Last_Year | Last_Month | Last_Week

text \<open>
  What the user has set in the widgets of one run: the radio button, the select box, the
  date slider, the form (when it was submitted) and the delete button; and the day
  \<^verbatim>\<open>date.today()\<close> returns.
\<close>

record form =
  f_date :: int
  f_pull :: int
  f_push :: int
  f_abs :: bool
  f_squat :: int
  f_burp :: int
  f_weights :: bool
  f_ctype :: string
  f_cmin :: int
  f_stretch :: bool
  f_wgt :: rat
  f_fat :: rat
  f_waist :: rat
  f_comm :: string

record inputs =
  view_opt :: time_view
  selected_type :: string
  sel_range :: "int \<times> int"
  today :: int
  submitted :: "form option"
  delete_clicked :: bool

text \<open>
  Line 119: the options of the select box,
  \<^verbatim>\<open>["All"] + sorted([x for x in df["Cardio Type"].unique() if x not in [...]])\<close>.
  \<^verbatim>\<open>sorted\<close> raises \<^verbatim>\<open>TypeError\<close> on texts mixed with other values; values that
  are no texts reach it only when the header of the column was not exactly
  \<^verbatim>\<open>Cardio Type\<close> when the sheet was read, and a list of them holding a missing value
  is left in the order it has. The answer of the select box is the input
  \<open>selected_type\<close>.
\<close>

fun is_text :: "cell \<Rightarrow> bool" where
  "is_text (Str s) = True"
| "is_text c = False"

definition unique :: "'a list \<Rightarrow> 'a list" where
  "unique xs = rev (remdups (rev xs))"

definition excluded_types :: "cell list" where
  "excluded_types = [Str ''N/A'', Str ''0'', Str ''0.0'', Str ''None'']"

definition py_sorted :: "lib \<Rightarrow> cell list \<Rightarrow> error + cell list" where
  "py_sorted L xs =
     (if list_all is_text xs then Inr (map Str (sort (map (astype_str L) xs)))
      else if list_ex is_text xs then Inl TypeError
      else if NaN \<in> set xs then Inr xs
      else Inr (sort_key num_val xs))"

definition cardio_options :: "lib \<Rightarrow> table \<Rightarrow> error + cell list" where
  "cardio_options L d =
     and_then (getcol (tcolumns d) (entries d) ''Cardio Type'') (\<lambda>col.
     and_then (py_sorted L (filter (\<lambda>x. x \<notin> set excluded_types) (unique col))) (\<lambda>sorted.
       Inr (Str ''All'' # sorted)))"

text \<open>
  Lines 122 to 124: the slider runs from the first to the last day of the table, and
  \<^verbatim>\<open>st.slider\<close> raises when the two are the same day. (The table has a row here: line
  74 has raised on a table without rows.) The range the user sets is the input
  \<open>sel_range\<close>.
\<close>

definition date_slider :: "entry list \<Rightarrow> error + unit" where
  "date_slider es =
     (case map Date_Only es of
        [] \<Rightarrow> Inl StreamlitAPIException
      | x # xs \<Rightarrow> (if fold min xs x < fold max xs x then Inr ()
                   else Inl StreamlitAPIException))"

text \<open>Line 126: the rows inside the slider's range, both ends included.\<close>

definition date_range :: "int \<times> int \<Rightarrow> entry list \<Rightarrow> entry list" where
  "date_range r es = filter (\<lambda>e. fst r \<le> Date_Only e \<and> Date_Only e \<le> snd r) es"

text \<open>
  Lines 128 to 134. The three branches compute \<^verbatim>\<open>today - timedelta(days=n)\<close>, and the
  script imports \<^verbatim>\<open>date\<close> only (line 4): the name \<^verbatim>\<open>timedelta\<close> is not bound, so
  each of them raises \<^verbatim>\<open>NameError\<close>. With \<^verbatim>\<open>Full History\<close> no branch is taken.
\<close>

definition time_view_filter :: "time_view \<Rightarrow> int \<Rightarrow> entry list \<Rightarrow> error + entry list" where
  "time_view_filter v tod chart =
     (case v of
        Last_Week \<Rightarrow> Inl (NameError ''timedelta'')
      | Last_Month \<Rightarrow> Inl (NameError ''timedelta'')
      | Last_Year \<Rightarrow> Inl (NameError ''timedelta'')
      | Full_History \<Rightarrow> Inr chart)"

text \<open>Lines 136 to 138.\<close>

definition category_filter :: "string \<Rightarrow> entry list \<Rightarrow> entry list" where
  "category_filter sel chart =
     (if sel \<noteq> ''All'' then filter (\<lambda>e. cells e ''Cardio Type'' = Str sel) chart else chart)"

text \<open>Lines 113 to 155, run when \<^verbatim>\<open>df_raw\<close> is not empty.\<close>

record filtered =
  chart_df :: "entry list"
  activity_df :: "entry list"
  period_pullups :: int
  period_squats :: int
  period_pushups :: int
  cardio_val :: int
  period_cardio_sessions :: nat

definition filtering :: "lib \<Rightarrow> table \<Rightarrow> inputs \<Rightarrow> error + filtered" where
  "filtering L d inp =
     and_then (cardio_options L d) (\<lambda>cardio_options.
     and_then (date_slider (entries d)) (\<lambda>slider.
     and_then (time_view_filter (view_opt inp) (today inp)
                 (date_range (sel_range inp) (entries d))) (\<lambda>chart.
     and_then (getcol (tcolumns d) chart ''Pullups'') (\<lambda>pullups.
     and_then (getcol (tcolumns d) chart ''Squats'') (\<lambda>squats.
     and_then (getcol (tcolumns d) chart ''Pushups'') (\<lambda>pushups.
     and_then (getcol (tcolumns d) (category_filter (selected_type inp) chart)
                 ''Cardio Min/Reps'') (\<lambda>minutes.
     and_then (getcol (tcolumns d) (category_filter (selected_type inp) chart)
                 ''Cardio Type'') (\<lambda>types.
       Inr \<lparr>chart_df = chart,
            activity_df = category_filter (selected_type inp) chart,
            period_pullups = sum_col pullups,
            period_squats = sum_col squats,
            period_pushups = sum_col pushups,
            cardio_val = sum_col minutes,
            period_cardio_sessions = length (filter (\<lambda>x. x \<noteq> Str ''None'') types)\<rparr>))))))))"

section \<open>Progress trends (lines 162 to 185)\<close>

text \<open>
  \<^verbatim>\<open>x > 0\<close> at one cell of a numeric column (numbers only, after the conversion), and
  \<^verbatim>\<open>chart_df[chart_df[col] > 0]\<close>. The chart of a tab is drawn from the rows in the
  order they have in \<^verbatim>\<open>chart_df\<close>, with \<^verbatim>\<open>Date_Only\<close> on the x axis and the column on
  the y axis; no chart is drawn when no row is left.
\<close>

fun gt0 :: "cell \<Rightarrow> bool" where
  "gt0 (Num x) = (0 < x)"
| "gt0 (Bool b) = b"
| "gt0 NaN = False"
| "gt0 (Str s) = False"

definition trend_data :: "string list \<Rightarrow> entry list \<Rightarrow> string \<Rightarrow> error + entry list" where
  "trend_data cols chart col =
     (if col \<in> set cols then Inr (filter (\<lambda>e. gt0 (cells e col)) chart)
      else Inl (KeyError col))"

definition chart_points :: "string \<Rightarrow> entry list \<Rightarrow> (int \<times> rat) list" where
  "chart_points col es = map (\<lambda>e. (Date_Only e, num_val (cells e col))) es"

definition trend_chart ::
  "string list \<Rightarrow> entry list \<Rightarrow> string \<Rightarrow> error + (int \<times> rat) list option" where
  "trend_chart cols chart col =
     and_then (trend_data cols chart col) (\<lambda>es.
       Inr (if es = [] then None else Some (chart_points col es)))"

record trends =
  weight_trend :: "(int \<times> rat) list option"
  fat_trend :: "(int \<times> rat) list option"
  waist_trend :: "(int \<times> rat) list option"

definition progress_trends :: "string list \<Rightarrow> entry list \<Rightarrow> error + trends option" where
  "progress_trends cols chart =
     (if chart = [] \<or> cols = [] then Inr None
      else
        and_then (trend_chart cols chart ''Weight'') (\<lambda>w.
        and_then (trend_chart cols chart ''Fat_Pct'') (\<lambda>f.
        and_then (trend_chart cols chart ''Waist_cm'') (\<lambda>waist.
          Inr (Some \<lparr>weight_trend = w, fat_trend = f, waist_trend = waist\<rparr>)))))"

section \<open>Adding and deleting an entry (lines 190 to 239)\<close>

definition row_of :: "(string \<times> cell) list \<Rightarrow> row" where
  "row_of kvs k = (case map_of kvs k of None \<Rightarrow> NaN | Some c \<Rightarrow> c)"

definition form_columns :: "string list" where
  "form_columns = [''Date'', ''Pullups'', ''Pushups'', ''Squats'', ''Burpees'', ''Abs'',
                   ''Weights'', ''Cardio Type'', ''Cardio Min/Reps'', ''Stretched'',
                   ''Weight'', ''Fat_Pct'', ''Waist_cm'', ''Comments'']"

text \<open>Lines 220 to 225: the one-row DataFrame of the submitted form.\<close>

definition new_data :: "lib \<Rightarrow> form \<Rightarrow> frame" where
  "new_data L f =
     \<lparr>columns = form_columns,
      rows = [row_of
        [(''Date'', Str (strftime L (f_date f))), (''Pullups'', Num (of_int (f_pull f))),
         (''Pushups'', Num (of_int (f_push f))), (''Squats'', Num (of_int (f_squat f))),
         (''Burpees'', Num (of_int (f_burp f))), (''Abs'', Bool (f_abs f)),
         (''Weights'', Bool (f_weights f)), (''Cardio Type'', Str (f_ctype f)),
         (''Cardio Min/Reps'', Num (of_int (f_cmin f))), (''Stretched'', Bool (f_stretch f)),
         (''Weight'', Num (f_wgt f)), (''Fat_Pct'', Num (f_fat f)),
         (''Waist_cm'', Num (f_waist f)), (''Comments'', Str (f_comm f))]]\<rparr>"

text \<open>
  \<^verbatim>\<open>pd.concat([a, b], ignore_index=True)\<close>: the rows of \<open>a\<close>, then those of \<open>b\<close>;
  the columns of \<open>a\<close>, then those \<open>b\<close> adds. And \<^verbatim>\<open>df.iloc[:-1]\<close>.
\<close>

definition pd_concat :: "frame \<Rightarrow> frame \<Rightarrow> frame" where
  "pd_concat a b =
     \<lparr>columns = columns a @ filter (\<lambda>c. c \<notin> set (columns a)) (columns b),
      rows = rows a @ rows b\<rparr>"

definition iloc_drop_last :: "frame \<Rightarrow> frame" where
  "iloc_drop_last d = d\<lparr>rows := butlast (rows d)\<rparr>"

text \<open>
  Lines 226 and 236: the table \<^verbatim>\<open>updated_df\<close> each write path hands to
  \<^verbatim>\<open>conn.update\<close>.
\<close>

definition append_entry :: "lib \<Rightarrow> frame \<Rightarrow> form \<Rightarrow> frame" where
  "append_entry L df_raw f = pd_concat df_raw (new_data L f)"

definition delete_last_entry :: "frame \<Rightarrow> frame option" where
  "delete_last_entry df_raw = (if df_empty df_raw then None else Some (iloc_drop_last df_raw))"

text \<open>
  Lines 219 to 239: what the run writes to the sheet, if anything. After a write
  \<^verbatim>\<open>st.rerun()\<close> ends the run.
\<close>

definition data_management :: "lib \<Rightarrow> frame \<Rightarrow> inputs \<Rightarrow> frame option" where
  "data_management L df_raw inp =
     (case submitted inp of
        Some f \<Rightarrow> Some (append_entry L df_raw f)
      | None \<Rightarrow> (if delete_clicked inp then delete_last_entry df_raw else None))"

section \<open>The script\<close>

text \<open>
  What a run shows: the banner and the lifetime totals, the period summary, the trend
  charts (\<open>None\<close> when \<^verbatim>\<open>chart_df\<close> is empty) and the history log
  \<^verbatim>\<open>activity_df.sort_values("Date_Only", ascending=False)\<close>, which is not reached when
  the run has written to the sheet.
\<close>

record view =
  processing :: processed
  filters :: filtered
  charts :: "trends option"
  history :: "entry list option"

text \<open>
  Lines 55 to 243. When \<^verbatim>\<open>df_raw\<close> is empty the blocks of lines 55 and 113 are
  skipped, nothing binds \<^verbatim>\<open>chart_df\<close>, and line 162 raises \<^verbatim>\<open>NameError\<close>.
\<close>

definition sections :: "lib \<Rightarrow> frame \<Rightarrow> inputs \<Rightarrow> error + (view \<times> frame option)" where
  "sections L df_raw inp =
     (if df_empty df_raw then Inl (NameError ''chart_df'')
      else
        and_then (data_processing L df_raw) (\<lambda>p.
        and_then (filtering L (df p) inp) (\<lambda>q.
        and_then (progress_trends (tcolumns (df p)) (chart_df q)) (\<lambda>c.
          Inr (\<lparr>processing = p, filters = q, charts = c,
                history = (case data_management L df_raw inp of
                             None \<Rightarrow> Some (sort_values_desc L Date_Only (activity_df q))
                           | Some t \<Rightarrow> None)\<rparr>,
               data_management L df_raw inp)))))"

text \<open>
  The sheet is the only thing outside the process the script touches: one read
  (line 41) and at most one write (lines 227 and 237) in a run.
\<close>

datatype io = Read | Write frame

record outcome =
  trace :: "io list"
  result :: "error + view option"

definition main :: "lib \<Rightarrow> frame option \<Rightarrow> inputs \<Rightarrow> outcome" where
  "main L stored inp =
     (case sections L (read_raw L stored) inp of
        Inl err \<Rightarrow> \<lparr>trace = [Read], result = Inl err\<rparr>
      | Inr (v, w) \<Rightarrow>
          \<lparr>trace = Read # (case w of None \<Rightarrow> [] | Some t \<Rightarrow> [Write t]),
           result = Inr (Some v)\<rparr>)"

text \<open>The exception a run ends with, if any.\<close>

definition raised :: "outcome \<Rightarrow> error option" where
  "raised out = (case result out of Inl err \<Rightarrow> Some err | Inr v \<Rightarrow> None)"

subsection \<open>The password gate (lines 11 to 33)\<close>

text \<open>
  \<^verbatim>\<open>st.session_state\<close> holds the key \<^verbatim>\<open>password_correct\<close> once a password was
  entered, and the text of the password field under \<^verbatim>\<open>password\<close>.
  \<^verbatim>\<open>st.secrets\<close> is a dictionary of sections.
\<close>

record session_state =
  password_correct :: "bool option"
  password :: "string option"

type_synonym secrets = "string \<Rightarrow> (string \<Rightarrow> string option) option"

definition password_entered :: "secrets \<Rightarrow> session_state \<Rightarrow> error + session_state" where
  "password_entered sec ss =
     (case sec ''auth'' of
        None \<Rightarrow> Inr (ss\<lparr>password_correct := Some False\<rparr>)
      | Some auth \<Rightarrow>
          (case password ss of
             None \<Rightarrow> Inl (KeyError ''password'')
           | Some entered \<Rightarrow>
               (case auth ''password'' of
                  None \<Rightarrow> Inl (KeyError ''password'')
                | Some secret \<Rightarrow>
                    (if entered = secret
                     then Inr (ss\<lparr>password_correct := Some True, password := None\<rparr>)
                     else Inr (ss\<lparr>password_correct := Some False\<rparr>)))))"

definition check_password :: "session_state \<Rightarrow> bool" where
  "check_password ss = (case password_correct ss of None \<Rightarrow> False | Some ok \<Rightarrow> ok)"

text \<open>Line 33: the whole of the script is under \<^verbatim>\<open>if check_password():\<close>.\<close>

definition script :: "lib \<Rightarrow> session_state \<Rightarrow> frame option \<Rightarrow> inputs \<Rightarrow> outcome" where
  "script L ss stored inp =
     (if check_password ss then main L stored inp else \<lparr>trace = [], result = Inr None\<rparr>)"

subsection \<open>A session\<close>

text \<open>
  Streamlit runs the script once for every action of the user. An action may be a text
  typed into the password field, which is on the page only while \<^verbatim>\<open>check_password\<close>
  is false: then the callback \<^verbatim>\<open>password_entered\<close> runs before the script (a callback
  that raises leaves \<^verbatim>\<open>password_correct\<close> as it was). \<open>sheet_up\<close> says whether the read
  of this run reaches the sheet. A write replaces the sheet.
\<close>

record event =
  typed :: "string option"
  ui :: inputs
  sheet_up :: bool

record world =
  state :: session_state
  sheet :: frame

definition on_change :: "secrets \<Rightarrow> session_state \<Rightarrow> string option \<Rightarrow> session_state" where
  "on_change sec ss t =
     (case t of
        None \<Rightarrow> ss
      | Some pw \<Rightarrow>
          (if check_password ss then ss
           else (case password_entered sec (ss\<lparr>password := Some pw\<rparr>) of
                   Inl err \<Rightarrow> ss\<lparr>password := Some pw\<rparr>
                 | Inr ss' \<Rightarrow> ss')))"

fun written :: "io list \<Rightarrow> frame option" where
  "written [] = None"
| "written (Read # tr) = written tr"
| "written (Write t # tr) = (case written tr of None \<Rightarrow> Some t | Some t' \<Rightarrow> Some t')"

definition run :: "lib \<Rightarrow> secrets \<Rightarrow> world \<Rightarrow> event \<Rightarrow> world \<times> outcome" where
  "run L sec w ev =
     (let ss = on_change sec (state w) (typed ev);
          out = script L ss (if sheet_up ev then Some (sheet w) else None) (ui ev)
      in (\<lparr>state = ss,
           sheet = (case written (trace out) of None \<Rightarrow> sheet w | Some t \<Rightarrow> t)\<rparr>, out))"

fun session :: "lib \<Rightarrow> secrets \<Rightarrow> world \<Rightarrow> event list \<Rightarrow> world \<times> outcome list" where
  "session L sec w [] = (w, [])"
| "session L sec w (ev # evs) =
     (case run L sec w ev of
        (w', out) \<Rightarrow> (case session L sec w' evs of (w'', outs) \<Rightarrow> (w'', out # outs)))"

text \<open>A new session: nothing in \<^verbatim>\<open>st.session_state\<close>.\<close>

definition new_session :: session_state where
  "new_session = \<lparr>password_correct = None, password = None\<rparr>"

section \<open>A library instance for evaluation\<close>

text \<open>
  The library functions at the texts the examples below use: dates written
  \<^verbatim>\<open>YYYY-MM-DD\<close> in the proleptic Gregorian calendar, and plain decimal numbers.
  \<open>iso_lib\<close> reads these as pandas does and takes no other text, and it sorts keeping
  equal keys in order; the theorems that hold for every library do not depend on it.
\<close>

definition is_digit :: "char \<Rightarrow> bool" where
  "is_digit c = (CHR ''0'' \<le> c \<and> c \<le> CHR ''9'')"

definition nat_of_digits :: "string \<Rightarrow> nat" where
  "nat_of_digits s = foldl (\<lambda>n c. 10 * n + (of_char c - 48)) 0 s"

definition is_leap :: "int \<Rightarrow> bool" where
  "is_leap y = (y mod 4 = 0 \<and> (if y mod 100 = 0 then y mod 400 = 0 else True))"

definition days_in_month :: "int \<Rightarrow> int \<Rightarrow> int" where
  "days_in_month y m =
     (if m = 2 then (if is_leap y then 29 else 28)
      else if m \<in> set [4, 6, 9, 11] then 30 else 31)"

text \<open>The day number of a civil date, counted from 1970-01-01, and back.\<close>

definition days_from_civil :: "int \<Rightarrow> int \<Rightarrow> int \<Rightarrow> int" where
  "days_from_civil y m d =
     (let y' = (if m \<le> 2 then y - 1 else y);
          era = y' div 400;
          yoe = y' - era * 400;
          doy = (153 * ((m + 9) mod 12) + 2) div 5 + d - 1;
          doe = yoe * 365 + yoe div 4 - yoe div 100 + doy
      in era * 146097 + doe - 719468)"

definition civil_from_days :: "int \<Rightarrow> int \<times> int \<times> int" where
  "civil_from_days z =
     (let z' = z + 719468;
          era = z' div 146097;
          doe = z' - era * 146097;
          yoe = (doe - doe div 1460 + doe div 36524 - doe div 146096) div 365;
          doy = doe - (365 * yoe + yoe div 4 - yoe div 100);
          mp = (5 * doy + 2) div 153;
          d = doy - (153 * mp + 2) div 5 + 1;
          m = (if mp < 10 then mp + 3 else mp - 9)
      in (if m \<le> 2 then yoe + era * 400 + 1 else yoe + era * 400, m, d))"

definition iso_date :: "string \<Rightarrow> int option" where
  "iso_date s =
     (if length s = 10 \<and> s ! 4 = CHR ''-'' \<and> s ! 7 = CHR ''-''
         \<and> list_all is_digit (take 4 s @ take 2 (drop 5 s) @ drop 8 s)
      then
        (let y = int (nat_of_digits (take 4 s));
             m = int (nat_of_digits (take 2 (drop 5 s)));
             d = int (nat_of_digits (drop 8 s))
         in if 1 \<le> y \<and> 1 \<le> m \<and> m \<le> 12 \<and> 1 \<le> d \<and> d \<le> days_in_month y m
            then Some (days_from_civil y m d) else None)
      else None)"

definition iso_to_datetime :: "string list \<Rightarrow> string \<Rightarrow> int option" where
  "iso_to_datetime col s = map_option (\<lambda>d. d * ns_per_day) (iso_date s)"

definition unsigned_decimal :: "string \<Rightarrow> rat option" where
  "unsigned_decimal s =
     (let ip = takeWhile is_digit s; rest = dropWhile is_digit s
      in if ip = [] then None
         else (case rest of
                 [] \<Rightarrow> Some (of_nat (nat_of_digits ip))
               | c # fp \<Rightarrow>
                   (if c = CHR ''.'' \<and> fp \<noteq> [] \<and> list_all is_digit fp
                    then Some (of_nat (nat_of_digits ip)
                               + of_nat (nat_of_digits fp) / 10 ^ length fp)
                    else None)))"

definition iso_to_numeric :: "string \<Rightarrow> rat option" where
  "iso_to_numeric s =
     (case s of
        [] \<Rightarrow> None
      | c # t \<Rightarrow> (if c = CHR ''-'' then map_option uminus (unsigned_decimal t)
                  else unsigned_decimal s))"

text \<open>
  Numbers and dates as texts: a whole number as Python prints an \<^verbatim>\<open>int\<close>, any other
  with up to 17 decimals; a date with the year on four digits.
\<close>

fun digits :: "nat \<Rightarrow> nat \<Rightarrow> string" where
  "digits 0 n = []"
| "digits (Suc k) n = digits k (n div 10) @ [char_of (48 + n mod 10)]"

fun width :: "nat \<Rightarrow> nat \<Rightarrow> nat" where
  "width 0 n = 1"
| "width (Suc fuel) n = (if n < 10 then 1 else Suc (width fuel (n div 10)))"

definition show_nat :: "nat \<Rightarrow> string" where
  "show_nat n = digits (width n n) n"

fun decimals :: "nat \<Rightarrow> rat \<Rightarrow> string" where
  "decimals 0 x = []"
| "decimals (Suc k) x =
     (if x = 0 then []
      else char_of (48 + nat \<lfloor>x * 10\<rfloor>) # decimals k (x * 10 - of_int \<lfloor>x * 10\<rfloor>))"

definition iso_num_str :: "rat \<Rightarrow> string" where
  "iso_num_str x =
     (let a = \<bar>x\<bar>; whole = \<lfloor>a\<rfloor>; frac = a - of_int whole
      in (if x < 0 then ''-'' else []) @ show_nat (nat whole)
         @ (if frac = 0 then [] else CHR ''.'' # decimals 17 frac))"

definition iso_strftime :: "int \<Rightarrow> string" where
  "iso_strftime z =
     (case civil_from_days z of
        (y, m, d) \<Rightarrow> digits 4 (nat y) @ ''-'' @ digits 2 (nat m) @ ''-'' @ digits 2 (nat d))"

definition iso_lib :: lib where
  "iso_lib = \<lparr>to_datetime = iso_to_datetime, to_numeric = iso_to_numeric,
          num_str = iso_num_str, strftime = iso_strftime, argsort = stable_argsort\<rparr>"

text \<open>
  A typed text is the right password when the secrets have a section \<^verbatim>\<open>auth\<close>
  whose \<^verbatim>\<open>password\<close> it is.
\<close>

definition right_password :: "secrets \<Rightarrow> string \<Rightarrow> bool" where
  "right_password sec pw =
     (case sec ''auth'' of None \<Rightarrow> False | Some auth \<Rightarrow> auth ''password'' = Some pw)"

section \<open>Example sheets\<close>

text \<open>A session past the password gate, and secrets with the password \<^verbatim>\<open>sparta\<close>.\<close>

definition signed_in :: session_state where
  "signed_in = \<lparr>password_correct = Some True, password = None\<rparr>"

definition one_secret :: secrets where
  "one_secret = (\<lambda>k. None)(''auth'' := Some ((\<lambda>k. None)(''password'' := Some ''sparta'')))"

text \<open>
  The three rows of the specification's concrete scenario. A cell the scenario leaves
  blank or does not give is a missing value, as pandas reads a blank cell of a sheet.
\<close>

definition scenario_sheet :: frame where
  "scenario_sheet =
     \<lparr>columns = [''Date'', ''Pullups'', ''Cardio Type'', ''Cardio Min/Reps''],
      rows = [row_of [(''Date'', Str ''2024-01-01''), (''Pullups'', Str ''5''),
                      (''Cardio Min/Reps'', Str ''10'')],
              row_of [(''Date'', Str ''bad''), (''Pullups'', Str ''3'')],
              row_of [(''Date'', Str ''2024-01-02''), (''Pullups'', Str ''7''),
                      (''Cardio Type'', Str ''Run''), (''Cardio Min/Reps'', Str ''20'')]]\<rparr>"

text \<open>
  The same rows with the blank cardio type of the first row as the empty text, and a
  sheet whose Comments header ends in a blank.
\<close>

definition scenario_sheet_text :: frame where
  "scenario_sheet_text =
     \<lparr>columns = [''Date'', ''Pullups'', ''Cardio Type'', ''Cardio Min/Reps''],
      rows = [row_of [(''Date'', Str ''2024-01-01''), (''Pullups'', Str ''5''),
                      (''Cardio Type'', Str []), (''Cardio Min/Reps'', Str ''10'')],
              row_of [(''Date'', Str ''bad''), (''Pullups'', Str ''3'')],
              row_of [(''Date'', Str ''2024-01-02''), (''Pullups'', Str ''7''),
                      (''Cardio Type'', Str ''Run''), (''Cardio Min/Reps'', Str ''20'')]]\<rparr>"

definition spaced_header_sheet :: frame where
  "spaced_header_sheet =
     \<lparr>columns = [''Date'', ''Comments ''],
      rows = [row_of [(''Date'', Str ''2025-01-01'')]]\<rparr>"

text \<open>A row of a sheet that has every column of the form.\<close>

definition sheet_row ::
  "string \<Rightarrow> rat \<Rightarrow> string \<Rightarrow> rat \<Rightarrow> rat \<Rightarrow> string \<Rightarrow> row" where
  "sheet_row date pullups ctype minutes weight comment =
     row_of [(''Date'', Str date), (''Pullups'', Num pullups), (''Pushups'', Num 10),
             (''Squats'', Num 20), (''Burpees'', Num 0), (''Abs'', Bool True),
             (''Weights'', Bool False), (''Cardio Type'', Str ctype),
             (''Cardio Min/Reps'', Num minutes), (''Stretched'', Bool False),
             (''Weight'', Num weight), (''Fat_Pct'', Num 0), (''Waist_cm'', Num 0),
             (''Comments'', Str comment)]"

text \<open>
  The entries of the window example: 2023-01-01, 2024-06-01 and 2025-01-01, seen on
  2025-01-10 (day 20098) with the slider on the whole range and no cardio type chosen.
\<close>

definition window_sheet :: frame where
  "window_sheet =
     \<lparr>columns = form_columns,
      rows = [sheet_row ''2023-01-01'' 5 ''Run'' 30 80 ''first'',
              sheet_row ''2024-06-01'' 6 ''None'' 0 0 ''N/A'',
              sheet_row ''2025-01-01'' 7 ''Skip'' 15 79 ''new year'']\<rparr>"

text \<open>The processed table of the window sheet (lemma \<open>normalize_window\<close> below).\<close>

definition window_table :: table where
  "window_table =
     \<lparr>tcolumns = form_columns @ [''Date_Only''],
      entries = [\<lparr>Date = 19358 * ns_per_day, Date_Only = 19358,
                  cells = sheet_row ''2023-01-01'' 5 ''Run'' 30 80 ''first''\<rparr>,
                 \<lparr>Date = 19875 * ns_per_day, Date_Only = 19875,
                  cells = sheet_row ''2024-06-01'' 6 ''None'' 0 0 ''N/A''\<rparr>,
                 \<lparr>Date = 20089 * ns_per_day, Date_Only = 20089,
                  cells = sheet_row ''2025-01-01'' 7 ''Skip'' 15 79 ''new year''\<rparr>]\<rparr>"

definition window_inputs :: "time_view \<Rightarrow> inputs" where
  "window_inputs v =
     \<lparr>view_opt = v, selected_type = ''All'', sel_range = (19358, 20089), today = 20098,
      submitted = None, delete_clicked = False\<rparr>"

text \<open>
  A sheet with its header and no row; a sheet whose only row has no date.
\<close>

definition empty_sheet :: frame where
  "empty_sheet = \<lparr>columns = form_columns, rows = []\<rparr>"

definition undated_sheet :: frame where
  "undated_sheet =
     \<lparr>columns = form_columns, rows = [sheet_row ''soon'' 5 ''Run'' 30 80 ''first'']\<rparr>"

text \<open>
  A sheet with a row of blank cells between two entries, and the form of a new entry for
  2025-01-10.
\<close>

definition blank_row_sheet :: frame where
  "blank_row_sheet =
     \<lparr>columns = form_columns,
      rows = [sheet_row ''2025-01-01'' 7 ''Skip'' 15 79 ''new year'', (\<lambda>c. NaN),
              sheet_row ''2025-01-02'' 8 ''Run'' 20 79 ''second'']\<rparr>"

definition new_entry :: form where
  "new_entry =
     \<lparr>f_date = 20098, f_pull = 9, f_push = 0, f_abs = False, f_squat = 0, f_burp = 0,
      f_weights = False, f_ctype = ''None'', f_cmin = 0, f_stretch = False, f_wgt = 0,
      f_fat = 0, f_waist = 0, f_comm = ''third''\<rparr>"

text \<open>
  The processed table of the sheet with the blank row (lemma \<open>normalize_blank_row\<close>
  below), and what is set in the widgets when it is on the page.
\<close>

definition blank_row_table :: table where
  "blank_row_table =
     \<lparr>tcolumns = form_columns @ [''Date_Only''],
      entries = [\<lparr>Date = 20089 * ns_per_day, Date_Only = 20089,
                  cells = sheet_row ''2025-01-01'' 7 ''Skip'' 15 79 ''new year''\<rparr>,
                 \<lparr>Date = 20090 * ns_per_day, Date_Only = 20090,
                  cells = sheet_row ''2025-01-02'' 8 ''Run'' 20 79 ''second''\<rparr>]\<rparr>"

definition blank_row_inputs :: inputs where
  "blank_row_inputs =
     \<lparr>view_opt = Full_History, selected_type = ''All'', sel_range = (20089, 20090),
      today = 20098, submitted = None, delete_clicked = False\<rparr>"

text \<open>
  Two entries of the same day, in sheet order; two entries entered out of date order.
\<close>

definition an_entry :: "int \<Rightarrow> rat \<Rightarrow> string \<Rightarrow> entry" where
  "an_entry day weight comment =
     \<lparr>Date = day * ns_per_day, Date_Only = day,
      cells = row_of [(''Weight'', Num weight), (''Comments'', Str comment)]\<rparr>"

definition same_day_table :: table where
  "same_day_table =
     \<lparr>tcolumns = [''Date'', ''Weight'', ''Comments'', ''Date_Only''],
      entries = [an_entry 20089 80 ''morning'', an_entry 20089 81 ''evening'']\<rparr>"

definition unordered_chart :: "entry list" where
  "unordered_chart = [an_entry 20089 80 ''later'', an_entry 19875 82 ''earlier'']"

section \<open>Facts about the model\<close>

subsection \<open>Column loops and the processed table\<close>

lemma columns_for_cols: "columns (for_cols cs f d) = columns d"
  unfolding for_cols_def by (induction cs arbitrary: d) (simp_all add: assign_col_def)

lemma rows_for_cols:
  "distinct cs \<Longrightarrow>
   rows (for_cols cs f d) =
     map (\<lambda>r c. if c \<in> set cs \<and> c \<in> set (columns d) then f (r c) else r c) (rows d)"
proof (induction cs arbitrary: d)
  case Nil
  then show ?case by (simp add: for_cols_def)
next
  case (Cons a cs)
  have step: "for_cols (a # cs) f d =
      for_cols cs f (if a \<in> set (columns d) then assign_col a f d else d)"
    by (simp add: for_cols_def)
  from Cons.prems have d: "distinct cs" and a: "a \<notin> set cs" by simp_all
  show ?case
    unfolding step Cons.IH [OF d]
    using a by (auto simp: assign_col_def fun_eq_iff)
qed

lemma map2_fst:
  "map2 h (map fst xs) (map g xs) = map (\<lambda>p. h (fst p) (g p)) xs"
  by (induction xs) simp_all

lemma distinct_num_cols: "distinct num_cols" by (simp add: num_cols_def)
lemma distinct_bool_cols: "distinct bool_cols" by (simp add: bool_cols_def)

lemma normalize_df_Inr:
  "''Date'' \<in> set (columns raw) \<Longrightarrow> \<exists>d. normalize_df L raw = Inr d"
  by (simp add: normalize_df_def Let_def)

lemma normalize_df_columns:
  "normalize_df L raw = Inr d \<Longrightarrow> set (tcolumns d) = insert ''Date_Only'' (set (columns raw))"
  by (auto simp: normalize_df_def Let_def columns_for_cols split: if_splits)

lemma normalize_df_entries:
  assumes "normalize_df L raw = Inr d"
  shows "entries d =
     map (\<lambda>p. \<lparr>Date = fst p, Date_Only = fst p div ns_per_day,
               cells = (\<lambda>c. if c \<in> set bool_cols \<and> c \<in> set (tcolumns d)
                             then bool_fix L (if c \<in> set num_cols \<and> c \<in> set (tcolumns d)
                                              then numeric_fix L (snd p c) else snd p c)
                             else if c \<in> set num_cols \<and> c \<in> set (tcolumns d)
                                  then numeric_fix L (snd p c) else snd p c)\<rparr>)
         (dated_rows L raw)"
proof -
  from assms have date: "''Date'' \<in> set (columns raw)"
    by (simp add: normalize_df_def split: if_splits)
  define cols where "cols = (if ''Date_Only'' \<in> set (columns raw) then columns raw
                    else columns raw @ [''Date_Only''])"
  have d: "d = \<lparr>tcolumns = cols,
      entries = map2 (\<lambda>t r. \<lparr>Date = t, Date_Only = t div ns_per_day, cells = r\<rparr>)
         (map fst (dated_rows L raw))
         (rows (for_cols bool_cols (bool_fix L) (for_cols num_cols (numeric_fix L)
            \<lparr>columns = cols, rows = map snd (dated_rows L raw)\<rparr>)))\<rparr>"
    using assms date by (simp add: normalize_df_def Let_def cols_def columns_for_cols)
  have tc: "tcolumns d = cols" by (subst d) simp
  have en: "entries d = map2 (\<lambda>t r. \<lparr>Date = t, Date_Only = t div ns_per_day, cells = r\<rparr>)
         (map fst (dated_rows L raw))
         (rows (for_cols bool_cols (bool_fix L) (for_cols num_cols (numeric_fix L)
            \<lparr>columns = cols, rows = map snd (dated_rows L raw)\<rparr>)))"
    by (subst d) simp
  show ?thesis
    unfolding tc en
    by (simp add: rows_for_cols columns_for_cols distinct_num_cols distinct_bool_cols
        map2_fst o_def)
qed

lemma map_filter_fst:
  "map fst (List.map_filter (\<lambda>r. case p r of None \<Rightarrow> None | Some t \<Rightarrow> Some (t, r)) rs) =
     List.map_filter p rs"
  by (induction rs) (simp_all add: List.map_filter_simps split: option.splits)

lemma map_filter_snd:
  "map snd (List.map_filter (\<lambda>r. case p r of None \<Rightarrow> None | Some t \<Rightarrow> Some (t, r)) rs) =
     filter (\<lambda>r. p r \<noteq> None) rs"
  by (induction rs) (simp_all add: List.map_filter_simps split: option.splits)

lemma dated_rows_fst: "map fst (dated_rows L raw) = List.map_filter (parse_date L raw) (rows raw)"
  by (simp add: dated_rows_def map_filter_fst)

lemma dated_rows_snd:
  "map snd (dated_rows L raw) = filter (\<lambda>r. parse_date L raw r \<noteq> None) (rows raw)"
  by (simp add: dated_rows_def map_filter_snd)

lemma strip_blank: "list_all isspace s \<Longrightarrow> strip s = []"
proof -
  assume "list_all isspace s"
  then have e: "dropWhile isspace s = []" by (simp add: list_all_iff)
  show ?thesis unfolding strip_def e by simp
qed

lemma normalize_df_numeric:
  assumes "normalize_df L raw = Inr d" and "c \<in> set num_cols" and "c \<in> set (tcolumns d)"
    and "e \<in> set (entries d)"
  shows "\<exists>x. cells e c = Num x"
proof -
  have nb: "c \<notin> set bool_cols" using assms(2) by (auto simp: num_cols_def bool_cols_def)
  have nf: "\<exists>x. numeric_fix L y = Num x" for y
    by (cases y) (simp_all split: option.splits)
  from assms(4) show ?thesis
    unfolding normalize_df_entries [OF assms(1)]
    using nb assms(2,3) nf by auto
qed

subsection \<open>The descending sort\<close>

lemma find_first_filter:
  "filter P xs \<noteq> [] \<Longrightarrow> find P xs = Some (hd (filter P xs))"
  by (induction xs) auto

lemma sorted_le_last: "sorted xs \<Longrightarrow> x \<in> set xs \<Longrightarrow> x \<le> last (xs :: 'a::linorder list)"
  by (induction xs) auto

lemma last_filter_keep: "xs \<noteq> [] \<Longrightarrow> P (last xs) \<Longrightarrow> last (filter P xs) = last xs"
proof (induction xs)
  case Nil
  then show ?case by simp
next
  case (Cons a xs)
  show ?case
  proof (cases "xs = []")
    case True
    with Cons.prems show ?thesis by simp
  next
    case False
    with Cons.prems have p: "P (last xs)" by simp
    from False have "last xs \<in> set xs" by (rule last_in_set)
    with p have "filter P xs \<noteq> []" by (auto simp: filter_empty_conv)
    with Cons.IH [OF False p] False show ?thesis by simp
  qed
qed

lemma take_rows_in_range:
  "list_all (\<lambda>i. i < length xs) idx \<Longrightarrow> take_rows xs idx = map (\<lambda>i. xs ! i) idx"
  by (simp add: take_rows_def list_all_iff)

lemma is_argsort_stable: "is_argsort ks (stable_argsort ks)"
  by (simp add: is_argsort_def stable_argsort_def list_all_iff sorted_sort_key)

lemma insort_key_map:
  "map g (insort_key (\<lambda>i. f (g i)) a xs) = insort_key f (g a) (map g xs)"
  by (induction xs) simp_all

lemma sort_key_map: "map g (sort_key (\<lambda>i. f (g i)) xs) = sort_key f (map g xs)"
proof (induction xs)
  case Nil
  show ?case by simp
next
  case (Cons a xs)
  have "map g (sort_key (\<lambda>i. f (g i)) (a # xs)) =
        map g (insort_key (\<lambda>i. f (g i)) a (sort_key (\<lambda>i. f (g i)) xs))"
    by simp
  also have "\<dots> = insort_key f (g a) (map g (sort_key (\<lambda>i. f (g i)) xs))"
    by (rule insort_key_map)
  also have "\<dots> = insort_key f (g a) (sort_key f (map g xs))"
    by (simp only: Cons.IH)
  also have "\<dots> = sort_key f (map g (a # xs))"
    by simp
  finally show ?case .
qed

lemma insort_key_agree:
  "h a = h' a \<Longrightarrow> \<forall>i \<in> set xs. h i = h' i \<Longrightarrow> insort_key h a xs = insort_key h' a xs"
  by (induction xs) simp_all

lemma sort_key_agree: "\<forall>i \<in> set xs. h i = h' i \<Longrightarrow> sort_key h xs = sort_key h' xs"
proof (induction xs)
  case Nil
  then show ?case by simp
next
  case (Cons a xs)
  from Cons.prems have tl: "\<forall>i \<in> set xs. h i = h' i" and hd: "h a = h' a" by simp_all
  have rest: "\<forall>i \<in> set (sort_key h' xs). h i = h' i" using tl by simp
  have "sort_key h (a # xs) = insort_key h a (sort_key h xs)"
    by simp
  also have "\<dots> = insort_key h a (sort_key h' xs)"
    by (simp only: Cons.IH [OF tl])
  also have "\<dots> = insort_key h' a (sort_key h' xs)"
    using hd rest by (rule insort_key_agree)
  also have "\<dots> = sort_key h' (a # xs)"
    by simp
  finally show ?case .
qed

lemma take_rows_stable: "take_rows ys (stable_argsort (map key ys)) = sort_key key ys"
proof -
  have in_range: "list_all (\<lambda>i. i < length ys) (stable_argsort (map key ys))"
    by (simp add: stable_argsort_def list_all_iff)
  have "sort_key (\<lambda>i. map key ys ! i) [0..<length ys] =
        sort_key (\<lambda>i. key (ys ! i)) [0..<length ys]"
    by (rule sort_key_agree) simp
  then have "map (\<lambda>i. ys ! i) (stable_argsort (map key ys)) =
        sort_key key (map (\<lambda>i. ys ! i) [0..<length ys])"
    by (simp add: stable_argsort_def sort_key_map)
  then show ?thesis by (simp add: take_rows_in_range [OF in_range] map_nth)
qed

lemma sort_values_desc_stable:
  "argsort L (map key (rev xs)) = stable_argsort (map key (rev xs)) \<Longrightarrow>
   sort_values_desc L key xs = rev (sort_key key (rev xs))"
  by (simp add: sort_values_desc_def take_rows_stable)

lemma rev_nonempty: "zs \<noteq> [] \<Longrightarrow> rev zs = last zs # rev (butlast zs)"
  by (induction zs rule: rev_induct) simp_all

lemma sort_values_desc_first:
  assumes "xs \<noteq> []"
    and "is_argsort (map key (rev xs)) (argsort L (map key (rev xs)))"
  shows "\<exists>e es. sort_values_desc L key xs = e # es \<and> e \<in> set xs
           \<and> (\<forall>x \<in> set xs. key x \<le> key e)"
proof -
  let ?ys = "rev xs"
  let ?ks = "map key ?ys"
  let ?idx = "argsort L ?ks"
  from assms(2) have len: "length ?idx = length xs"
    and rng: "list_all (\<lambda>i. i < length ?ys) ?idx"
    and every: "\<forall>i < length xs. i \<in> set ?idx"
    and srt: "sorted (map (\<lambda>i. ?ks ! i) ?idx)"
    by (simp_all add: is_argsort_def list_all_iff)
  from len assms(1) have ne: "?idx \<noteq> []" by auto
  define e where "e = ?ys ! last ?idx"
  from ne have "last ?idx \<in> set ?idx" by (rule last_in_set)
  with rng have li: "last ?idx < length xs" by (simp add: list_all_iff)
  then have mem: "e \<in> set xs" unfolding e_def by (metis length_rev nth_mem set_rev)
  have sv: "sort_values_desc L key xs = e # rev (butlast (map (\<lambda>i. ?ys ! i) ?idx))"
    unfolding sort_values_desc_def take_rows_in_range [OF rng] e_def
    using ne by (simp add: rev_nonempty last_map map_butlast)
  have top: "key x \<le> key e" if "x \<in> set xs" for x
  proof -
    from that have "x \<in> set ?ys" by simp
    then obtain j where j: "j < length ?ys" "?ys ! j = x"
      unfolding in_set_conv_nth by blast
    with every have "j \<in> set ?idx" by simp
    then have "?ks ! j \<in> set (map (\<lambda>i. ?ks ! i) ?idx)" by simp
    with srt have "?ks ! j \<le> last (map (\<lambda>i. ?ks ! i) ?idx)" by (rule sorted_le_last)
    then have "?ks ! j \<le> ?ks ! last ?idx" using ne by (simp add: last_map)
    with j li show ?thesis unfolding e_def by simp
  qed
  from sv mem top show ?thesis by blast
qed

lemma latest_entry_last:
  assumes "xs \<noteq> []"
  shows "rev (sort_key key (rev xs)) =
     last (sort_key key (rev xs)) # rev (butlast (sort_key key (rev xs)))"
proof -
  have "sort_key key (rev xs) \<noteq> []" using assms by (metis length_sort length_rev length_0_conv)
  then show ?thesis by (rule rev_nonempty)
qed

lemma last_sort_key:
  assumes "xs \<noteq> []" and e_def: "e = last (sort_key key (rev xs))"
  shows "e \<in> set xs" and "\<forall>x \<in> set xs. key x \<le> key e"
    and "find (\<lambda>x. key x = key e) xs = Some e"
proof -
  let ?zs = "sort_key key (rev xs)"
  have ne: "?zs \<noteq> []" using assms(1) by (metis length_sort length_rev length_0_conv)
  then have "e \<in> set ?zs" unfolding e_def by (rule last_in_set)
  then show mem: "e \<in> set xs" by simp
  have srt: "sorted (map key ?zs)" by (rule sorted_sort_key)
  show "\<forall>x \<in> set xs. key x \<le> key e"
  proof
    fix x assume "x \<in> set xs"
    then have "key x \<in> set (map key ?zs)" by simp
    with srt have "key x \<le> last (map key ?zs)" by (rule sorted_le_last)
    then show "key x \<le> key e" unfolding e_def by (simp add: last_map ne)
  qed
  have "last (filter (\<lambda>x. key x = key e) ?zs) = e"
    unfolding e_def using ne by (rule last_filter_keep) simp
  then have "last (filter (\<lambda>x. key x = key e) (rev xs)) = e"
    by (simp add: sort_key_stable)
  then have hd: "hd (filter (\<lambda>x. key x = key e) xs) = e"
    by (simp add: last_rev flip: rev_filter)
  have "filter (\<lambda>x. key x = key e) xs \<noteq> []"
    using mem by (auto simp: filter_empty_conv)
  from find_first_filter [OF this] hd show "find (\<lambda>x. key x = key e) xs = Some e" by simp
qed

subsection \<open>Runs\<close>

lemma script_locked:
  "\<not> check_password ss \<Longrightarrow> script L ss stored inp = \<lparr>trace = [], result = Inr None\<rparr>"
  by (simp add: script_def)

lemma trace_main: "trace (main L stored inp) \<noteq> []"
  by (simp add: main_def split: sum.splits prod.splits)

lemma raised_script:
  "check_password ss \<Longrightarrow> sections L (read_raw L stored) inp = Inl err \<Longrightarrow>
   raised (script L ss stored inp) = Some err"
  by (simp add: script_def main_def raised_def)

lemma written_script:
  "written (trace (script L ss stored inp)) = Some t \<Longrightarrow>
   check_password ss \<and> data_management L (read_raw L stored) inp = Some t"
  by (auto simp: script_def main_def sections_def and_then_def
      split: if_splits sum.splits option.splits)

lemma filtering_rows:
  "filtering L d inp = Inr q \<Longrightarrow>
   set (activity_df q) \<subseteq> set (chart_df q) \<and> set (chart_df q) \<subseteq> set (entries d)"
  by (auto simp: filtering_def and_then_def time_view_filter_def date_range_def
      category_filter_def split: sum.splits time_view.splits if_splits)

lemma data_processing_df:
  "data_processing L df_raw = Inr p \<Longrightarrow> normalize_df L df_raw = Inr (df p)"
  by (auto simp: data_processing_def and_then_def split: sum.splits)

lemma sections_filtering_raises:
  assumes "\<not> df_empty df_raw" and "normalize_df L df_raw = Inr d"
    and "recent_comment_banner L d = Inr b" and "filtering L d inp = Inl err"
  shows "sections L df_raw inp = Inl err"
  using assms by (simp add: sections_def data_processing_def and_then_def)

lemma filtering_time_view:
  assumes "cardio_options L d = Inr opts" and "date_slider (entries d) = Inr ()"
    and "view_opt inp \<noteq> Full_History"
  shows "filtering L d inp = Inl (NameError ''timedelta'')"
  using assms
  by (simp add: filtering_def and_then_def time_view_filter_def split: time_view.splits)

lemma on_change_locked:
  assumes "\<not> check_password ss"
    and "case t of None \<Rightarrow> True | Some pw \<Rightarrow> \<not> right_password sec pw"
  shows "\<not> check_password (on_change sec ss t)"
  using assms
  by (auto simp: on_change_def password_entered_def right_password_def check_password_def
      split: option.splits)

lemma session_locked:
  assumes "\<not> check_password (state w)"
    and "list_all (\<lambda>ev. case typed ev of None \<Rightarrow> True | Some pw \<Rightarrow> \<not> right_password sec pw) evs"
  shows "sheet (fst (session L sec w evs)) = sheet w
     \<and> \<not> check_password (state (fst (session L sec w evs)))
     \<and> list_all (\<lambda>out. trace out = [] \<and> result out = Inr None) (snd (session L sec w evs))
     \<and> length (snd (session L sec w evs)) = length evs"
  using assms
proof (induction evs arbitrary: w)
  case Nil
  then show ?case by simp
next
  case (Cons ev evs)
  let ?ss = "on_change sec (state w) (typed ev)"
  let ?w = "\<lparr>state = ?ss, sheet = sheet w\<rparr>"
  from Cons.prems have locked: "\<not> check_password ?ss"
    by (intro on_change_locked) simp_all
  then have r: "run L sec w ev = (?w, \<lparr>trace = [], result = Inr None\<rparr>)"
    by (simp add: run_def Let_def script_locked)
  from Cons.prems have rest:
    "list_all (\<lambda>ev. case typed ev of None \<Rightarrow> True | Some pw \<Rightarrow> \<not> right_password sec pw) evs"
    by simp
  from locked have "\<not> check_password (state ?w)" by simp
  from Cons.IH [OF this rest] show ?case
    by (simp add: r split_beta)
qed

subsection \<open>The example sheets, read and processed\<close>

lemma fix_raw_rows:
  "rows (fix_raw L t) =
     filter (\<lambda>r. \<not> all_missing (map strip (columns t)) r)
       (map (\<lambda>r k. case find (\<lambda>c. strip c = k) (columns t) of None \<Rightarrow> NaN
                    | Some c \<Rightarrow> (if c \<in> set text_cols \<and> c \<in> set (columns t)
                                then fillna_str L (r c) else r c))
          (rows t))"
proof -
  have "distinct text_cols" by (simp add: text_cols_def)
  then show ?thesis
    by (simp add: fix_raw_def dropna_all_def strip_columns_def columns_for_cols rows_for_cols
        o_def)
qed

lemma read_window: "read_raw iso_lib (Some window_sheet) = window_sheet"
proof -
  have c: "columns (fix_raw iso_lib window_sheet) = columns window_sheet"
    by (simp add: fix_raw_def dropna_all_def strip_columns_def columns_for_cols
        window_sheet_def form_columns_def strip_def isspace_def)
  have r: "rows (fix_raw iso_lib window_sheet) = rows window_sheet"
    unfolding fix_raw_rows
    by (simp add: window_sheet_def form_columns_def strip_def isspace_def text_cols_def
        all_missing_def sheet_row_def row_of_def fun_eq_iff)
  show ?thesis by (simp add: read_raw_def frame.equality c r)
qed

lemma iso_dates:
  "iso_date ''2023-01-01'' = Some 19358" "iso_date ''2024-06-01'' = Some 19875"
  "iso_date ''2025-01-01'' = Some 20089" "iso_date ''2025-01-10'' = Some 20098"
  "iso_date ''2025-01-02'' = Some 20090" "iso_date ''nan'' = None"
  by (simp_all add: iso_date_def is_digit_def nat_of_digits_def days_in_month_def
      is_leap_def days_from_civil_def)

lemma strip_dates:
  "strip ''2023-01-01'' = ''2023-01-01''" "strip ''2024-06-01'' = ''2024-06-01''"
  "strip ''2025-01-01'' = ''2025-01-01''" "strip ''2025-01-02'' = ''2025-01-02''"
  "strip ''nan'' = ''nan''"
  by (simp_all add: strip_def isspace_def)

lemma dated_window:
  "dated_rows iso_lib window_sheet =
     [(19358 * ns_per_day, sheet_row ''2023-01-01'' 5 ''Run'' 30 80 ''first''),
      (19875 * ns_per_day, sheet_row ''2024-06-01'' 6 ''None'' 0 0 ''N/A''),
      (20089 * ns_per_day, sheet_row ''2025-01-01'' 7 ''Skip'' 15 79 ''new year'')]"
  by (simp add: dated_rows_def window_sheet_def List.map_filter_simps parse_date_def
      iso_lib_def iso_to_datetime_def iso_dates strip_dates sheet_row_def row_of_def)

lemma lower_True: "lower ''True'' = ''true''"
  by code_simp

lemma lower_False: "lower ''False'' = ''false''"
  by code_simp

lemma normalize_window: "normalize_df iso_lib window_sheet = Inr window_table"
proof -
  from normalize_df_Inr [of window_sheet iso_lib]
  obtain d where d: "normalize_df iso_lib window_sheet = Inr d"
    by (auto simp: window_sheet_def form_columns_def)
  have tc: "tcolumns d = form_columns @ [''Date_Only'']"
    using d by (auto simp: normalize_df_def Let_def columns_for_cols window_sheet_def
        form_columns_def)
  have en: "entries d = entries window_table"
    unfolding normalize_df_entries [OF d] dated_window tc
    by (simp add: window_table_def sheet_row_def row_of_def fun_eq_iff form_columns_def
        num_cols_def bool_cols_def bool_fix_def truthy_tokens_def lower_True lower_False
        ns_per_day_def)
  show ?thesis unfolding d by (simp add: table.equality tc en window_table_def)
qed

lemma banner_window:
  "recent_comment_banner iso_lib window_table = Inr (Some (20089, Str ''new year''))"
  by code_simp

lemma slider_window: "date_slider (entries window_table) = Inr ()"
  by code_simp

lemma options_window:
  "cardio_options iso_lib window_table = Inr [Str ''All'', Str ''Run'', Str ''Skip'']"
  by code_simp

lemma sections_window:
  assumes "v \<noteq> Full_History"
  shows "sections iso_lib (read_raw iso_lib (Some window_sheet)) (window_inputs v) =
     Inl (NameError ''timedelta'')"
proof -
  have e: "\<not> df_empty window_sheet"
    by (simp add: df_empty_def window_sheet_def form_columns_def)
  have f: "filtering iso_lib window_table (window_inputs v) = Inl (NameError ''timedelta'')"
    using assms
    by (intro filtering_time_view [OF options_window slider_window])
      (simp add: window_inputs_def)
  show ?thesis
    unfolding read_window
    by (rule sections_filtering_raises [OF e normalize_window banner_window f])
qed

lemma signed_in_ok: "check_password signed_in"
  by (simp add: check_password_def signed_in_def)

lemma read_blank_row:
  "read_raw iso_lib (Some blank_row_sheet) =
     \<lparr>columns = form_columns,
      rows = [sheet_row ''2025-01-01'' 7 ''Skip'' 15 79 ''new year'',
              row_of [(''Cardio Type'', Str ''N/A''), (''Comments'', Str ''N/A'')],
              sheet_row ''2025-01-02'' 8 ''Run'' 20 79 ''second'']\<rparr>"
proof -
  have c: "columns (fix_raw iso_lib blank_row_sheet) = form_columns"
    by (simp add: fix_raw_def dropna_all_def strip_columns_def columns_for_cols
        blank_row_sheet_def form_columns_def strip_def isspace_def)
  have r: "rows (fix_raw iso_lib blank_row_sheet) =
     [sheet_row ''2025-01-01'' 7 ''Skip'' 15 79 ''new year'',
      row_of [(''Cardio Type'', Str ''N/A''), (''Comments'', Str ''N/A'')],
      sheet_row ''2025-01-02'' 8 ''Run'' 20 79 ''second'']"
    unfolding fix_raw_rows
    by (simp add: blank_row_sheet_def form_columns_def strip_def isspace_def text_cols_def
        all_missing_def sheet_row_def row_of_def fun_eq_iff)
  show ?thesis by (simp add: read_raw_def frame.equality c r)
qed

lemma normalize_blank_row:
  "normalize_df iso_lib (read_raw iso_lib (Some blank_row_sheet)) = Inr blank_row_table"
proof -
  let ?raw = "read_raw iso_lib (Some blank_row_sheet)"
  have dated: "dated_rows iso_lib ?raw =
     [(20089 * ns_per_day, sheet_row ''2025-01-01'' 7 ''Skip'' 15 79 ''new year''),
      (20090 * ns_per_day, sheet_row ''2025-01-02'' 8 ''Run'' 20 79 ''second'')]"
    unfolding read_blank_row
    by (simp add: dated_rows_def List.map_filter_simps parse_date_def
        iso_lib_def iso_to_datetime_def iso_dates strip_dates sheet_row_def row_of_def)
  from normalize_df_Inr [of ?raw iso_lib]
  obtain d where d: "normalize_df iso_lib ?raw = Inr d"
    by (auto simp: read_blank_row form_columns_def)
  have tc: "tcolumns d = form_columns @ [''Date_Only'']"
    using d unfolding read_blank_row
    by (auto simp: normalize_df_def Let_def columns_for_cols form_columns_def)
  have en: "entries d = entries blank_row_table"
    unfolding normalize_df_entries [OF d] dated tc
    by (simp add: blank_row_table_def sheet_row_def row_of_def fun_eq_iff form_columns_def
        num_cols_def bool_cols_def bool_fix_def truthy_tokens_def lower_True lower_False
        ns_per_day_def)
  show ?thesis unfolding d by (simp add: table.equality tc en blank_row_table_def)
qed

lemma banner_blank_row:
  "recent_comment_banner iso_lib blank_row_table = Inr (Some (20090, Str ''second''))"
  by code_simp

lemma slider_blank_row: "date_slider (entries blank_row_table) = Inr ()"
  by code_simp

lemma options_blank_row:
  "cardio_options iso_lib blank_row_table = Inr [Str ''All'', Str ''Run'', Str ''Skip'']"
  by code_simp

lemma filtering_ok:
  assumes "cardio_options L d = Inr opts" and "date_slider (entries d) = Inr ()"
    and "view_opt inp = Full_History"
    and "set [''Pullups'', ''Squats'', ''Pushups'', ''Cardio Min/Reps'', ''Cardio Type'']
           \<subseteq> set (tcolumns d)"
  shows "\<exists>q. filtering L d inp = Inr q \<and> chart_df q = date_range (sel_range inp) (entries d)"
  using assms
  by (simp add: filtering_def and_then_def time_view_filter_def getcol_def)

lemma progress_trends_ok:
  assumes "set [''Weight'', ''Fat_Pct'', ''Waist_cm''] \<subseteq> set cols"
  shows "\<exists>c. progress_trends cols chart = Inr c"
  using assms
  by (simp add: progress_trends_def trend_chart_def trend_data_def and_then_def)

lemma sections_ok:
  assumes "\<not> df_empty df_raw" and "normalize_df L df_raw = Inr d"
    and "recent_comment_banner L d = Inr b" and "filtering L d inp = Inr q"
    and "progress_trends (tcolumns d) (chart_df q) = Inr c"
  shows "\<exists>v. sections L df_raw inp = Inr (v, data_management L df_raw inp)"
  using assms by (simp add: sections_def data_processing_def and_then_def)

lemma written_by_script:
  assumes "check_password ss" and "sections L (read_raw L stored) inp = Inr (v, w)"
  shows "written (trace (script L ss stored inp)) = w"
  using assms by (cases w) (simp_all add: script_def main_def)

lemma blank_row_run:
  assumes "view_opt inp = Full_History"
  shows "written (trace (script iso_lib signed_in (Some blank_row_sheet) inp)) =
     data_management iso_lib (read_raw iso_lib (Some blank_row_sheet)) inp"
proof -
  let ?raw = "read_raw iso_lib (Some blank_row_sheet)"
  have e: "\<not> df_empty ?raw"
    unfolding read_blank_row by (simp add: df_empty_def form_columns_def)
  have cols: "set [''Pullups'', ''Squats'', ''Pushups'', ''Cardio Min/Reps'', ''Cardio Type'']
           \<subseteq> set (tcolumns blank_row_table)"
    by (simp add: blank_row_table_def form_columns_def)
  from filtering_ok [OF options_blank_row slider_blank_row assms cols]
  obtain q where q: "filtering iso_lib blank_row_table inp = Inr q" by blast
  have "set [''Weight'', ''Fat_Pct'', ''Waist_cm''] \<subseteq> set (tcolumns blank_row_table)"
    by (simp add: blank_row_table_def form_columns_def)
  from progress_trends_ok [OF this]
  obtain c where c: "progress_trends (tcolumns blank_row_table) (chart_df q) = Inr c" by blast
  from sections_ok [OF e normalize_blank_row banner_blank_row q c]
  obtain v where "sections iso_lib ?raw inp = Inr (v, data_management iso_lib ?raw inp)" ..
  from written_by_script [OF signed_in_ok this] show ?thesis .
qed

lemma strftime_new_entry: "iso_strftime 20098 = ''2025-01-10''"
  by code_simp

section \<open>Appending and deleting\<close>

text \<open>
  Claim C4, as the code has it. Deleting the last entry of the table an append has
  produced gives back the rows of the table the append started from, in their order, under
  the columns of that table followed by the columns of the form it did not have (pandas
  adds them, with missing values in the old rows): it is that table exactly when the table
  has all the columns of the form. The append puts one row after the rows of the table,
  which holds the values of the form under the form's columns; the delete drops the last
  row by position.
\<close>

theorem append_then_delete:
  "delete_last_entry (append_entry L t f) =
     Some (t\<lparr>columns := columns t @ filter (\<lambda>c. c \<notin> set (columns t)) form_columns\<rparr>)
   \<and> (set form_columns \<subseteq> set (columns t) \<longrightarrow>
        delete_last_entry (append_entry L t f) = Some t)
   \<and> butlast (rows (append_entry L t f)) = rows t
   \<and> rows (append_entry L t f) \<noteq> []
   \<and> map (last (rows (append_entry L t f))) form_columns =
       [Str (strftime L (f_date f)), Num (of_int (f_pull f)), Num (of_int (f_push f)),
        Num (of_int (f_squat f)), Num (of_int (f_burp f)), Bool (f_abs f),
        Bool (f_weights f), Str (f_ctype f), Num (of_int (f_cmin f)), Bool (f_stretch f),
        Num (f_wgt f), Num (f_fat f), Num (f_waist f), Str (f_comm f)]
   \<and> delete_last_entry t =
       (if df_empty t then None else Some (t\<lparr>rows := butlast (rows t)\<rparr>))"
proof -
  have cols: "filter (\<lambda>c. c \<notin> set (columns t)) form_columns = []"
    if "set form_columns \<subseteq> set (columns t)"
    using that by (auto simp: filter_empty_conv)
  have 1: "delete_last_entry (append_entry L t f) =
     Some (t\<lparr>columns := columns t @ filter (\<lambda>c. c \<notin> set (columns t)) form_columns\<rparr>)"
    by (simp add: delete_last_entry_def append_entry_def pd_concat_def iloc_drop_last_def
        df_empty_def new_data_def form_columns_def)
  have 2: "set form_columns \<subseteq> set (columns t) \<longrightarrow>
        delete_last_entry (append_entry L t f) = Some t"
    unfolding 1 by (simp add: cols)
  have 3: "butlast (rows (append_entry L t f)) = rows t"
    and 4: "rows (append_entry L t f) \<noteq> []"
    by (simp_all add: append_entry_def pd_concat_def new_data_def)
  have 5: "map (last (rows (append_entry L t f))) form_columns =
       [Str (strftime L (f_date f)), Num (of_int (f_pull f)), Num (of_int (f_push f)),
        Num (of_int (f_squat f)), Num (of_int (f_burp f)), Bool (f_abs f),
        Bool (f_weights f), Str (f_ctype f), Num (of_int (f_cmin f)), Bool (f_stretch f),
        Num (f_wgt f), Num (f_fat f), Num (f_waist f), Str (f_comm f)]"
    by (simp add: append_entry_def pd_concat_def new_data_def form_columns_def row_of_def)
  have 6: "delete_last_entry t =
       (if df_empty t then None else Some (t\<lparr>rows := butlast (rows t)\<rparr>))"
    by (simp add: delete_last_entry_def iloc_drop_last_def)
  from 1 2 3 4 5 6 show ?thesis by blast
qed

theorem append_then_delete_witness:
  "set form_columns \<subseteq> set (columns window_sheet)
   \<and> delete_last_entry (append_entry iso_lib window_sheet new_entry) = Some window_sheet
   \<and> butlast (rows (append_entry iso_lib window_sheet new_entry)) = rows window_sheet"
proof -
  have 1: "set form_columns \<subseteq> set (columns window_sheet)"
    by (simp add: window_sheet_def)
  from append_then_delete [of iso_lib window_sheet new_entry] 1 show ?thesis by blast
qed

text \<open>
  The claim as stated fails on a sheet that lacks columns of the form, such as the four
  columns of the scenario: the table that comes back has the ten other columns of the form
  as well.
\<close>

theorem append_then_delete_counterexample:
  "delete_last_entry (append_entry iso_lib scenario_sheet new_entry) \<noteq> Some scenario_sheet"
proof
  assume "delete_last_entry (append_entry iso_lib scenario_sheet new_entry) = Some scenario_sheet"
  then have "columns (iloc_drop_last (append_entry iso_lib scenario_sheet new_entry)) =
      columns scenario_sheet"
    by (simp add: delete_last_entry_def split: if_splits)
  then show False
    by (simp add: iloc_drop_last_def append_entry_def pd_concat_def new_data_def
        scenario_sheet_def form_columns_def)
qed

section \<open>Dates\<close>

text \<open>
  Claim C9. In a sheet with a Date column the processed table holds, in sheet order,
  exactly the rows whose date text parses: the text is the cell as \<^verbatim>\<open>astype(str)\<close>
  gives it, trimmed, and the date of a retained row is what \<^verbatim>\<open>pd.to_datetime\<close> makes
  of that text, its \<^verbatim>\<open>Date_Only\<close> the day of it. The other cells of a retained row
  are those of the sheet (for a column that is neither numeric nor boolean). With a
  library that parses neither the empty text nor \<^verbatim>\<open>nan\<close>, as pandas does, no
  retained row has a missing date or a date of white space only. The script computes
  everything it shows from this table: it is the \<^verbatim>\<open>df\<close> of the data processing, and
  the rows of \<^verbatim>\<open>chart_df\<close> and \<^verbatim>\<open>activity_df\<close> are rows of it.
\<close>

theorem date_drop_law:
  assumes "''Date'' \<in> set (columns df_raw)"
    and "\<forall>col. to_datetime L col [] = None"
    and "\<forall>col. to_datetime L col ''nan'' = None"
    and "c \<notin> set num_cols" and "c \<notin> set bool_cols"
  shows "\<exists>d. normalize_df L df_raw = Inr d
      \<and> map Date (entries d) = List.map_filter (parse_date L df_raw) (rows df_raw)
      \<and> map Date_Only (entries d) = map (\<lambda>t. t div ns_per_day) (map Date (entries d))
      \<and> map (\<lambda>e. cells e c) (entries d) =
          map (\<lambda>r. r c) (filter (\<lambda>r. parse_date L df_raw r \<noteq> None) (rows df_raw))
      \<and> filter (\<lambda>r. r ''Date'' = NaN) (filter (\<lambda>r. parse_date L df_raw r \<noteq> None) (rows df_raw)) = []
      \<and> filter (\<lambda>r. case r ''Date'' of Str s \<Rightarrow> list_all isspace s | _ \<Rightarrow> False)
           (filter (\<lambda>r. parse_date L df_raw r \<noteq> None) (rows df_raw)) = []
      \<and> (\<forall>p. data_processing L df_raw = Inr p \<longrightarrow> df p = d)
      \<and> (\<forall>inp q. filtering L d inp = Inr q \<longrightarrow>
            set (activity_df q) \<subseteq> set (chart_df q) \<and> set (chart_df q) \<subseteq> set (entries d))"
proof -
  from normalize_df_Inr [OF assms(1)] obtain d where d: "normalize_df L df_raw = Inr d" ..
  note en = normalize_df_entries [OF d]
  have 1: "map Date (entries d) = List.map_filter (parse_date L df_raw) (rows df_raw)"
    by (simp add: en o_def flip: dated_rows_fst)
  have 2: "map Date_Only (entries d) = map (\<lambda>t. t div ns_per_day) (map Date (entries d))"
    by (simp add: en o_def)
  have 3: "map (\<lambda>e. cells e c) (entries d) =
          map (\<lambda>r. r c) (filter (\<lambda>r. parse_date L df_raw r \<noteq> None) (rows df_raw))"
  proof -
    have "map (\<lambda>e. cells e c) (entries d) = map (\<lambda>r. r c) (map snd (dated_rows L df_raw))"
      using assms(4,5) by (simp add: en o_def)
    then show ?thesis unfolding dated_rows_snd .
  qed
  have 4: "parse_date L df_raw r = None" if "r ''Date'' = NaN" for r
    using that assms(3) by (simp add: parse_date_def strip_def isspace_def)
  have 5: "parse_date L df_raw r = None" if "r ''Date'' = Str s" "list_all isspace s" for r s
    using that assms(2) by (simp add: parse_date_def strip_blank)
  have 6: "filter (\<lambda>r. r ''Date'' = NaN) (filter (\<lambda>r. parse_date L df_raw r \<noteq> None) (rows df_raw)) = []"
    using 4 by (auto simp: filter_empty_conv)
  have 7: "filter (\<lambda>r. case r ''Date'' of Str s \<Rightarrow> list_all isspace s | _ \<Rightarrow> False)
           (filter (\<lambda>r. parse_date L df_raw r \<noteq> None) (rows df_raw)) = []"
    using 5 by (auto simp: filter_empty_conv split: cell.splits)
  have 8: "\<forall>p. data_processing L df_raw = Inr p \<longrightarrow> df p = d"
    using d by (auto dest: data_processing_df)
  have 9: "\<forall>inp q. filtering L d inp = Inr q \<longrightarrow>
            set (activity_df q) \<subseteq> set (chart_df q) \<and> set (chart_df q) \<subseteq> set (entries d)"
    by (blast dest: filtering_rows)
  from d 1 2 3 6 7 8 9 show ?thesis by blast
qed

theorem date_drop_law_witness:
  "''Date'' \<in> set (columns blank_row_sheet)
   \<and> (\<forall>col. to_datetime iso_lib col [] = None)
   \<and> (\<forall>col. to_datetime iso_lib col ''nan'' = None)
   \<and> ''Comments'' \<notin> set num_cols \<and> ''Comments'' \<notin> set bool_cols
   \<and> (\<exists>d. normalize_df iso_lib blank_row_sheet = Inr d
      \<and> map Date (entries d) =
          List.map_filter (parse_date iso_lib blank_row_sheet) (rows blank_row_sheet)
      \<and> map Date_Only (entries d) = map (\<lambda>t. t div ns_per_day) (map Date (entries d))
      \<and> map (\<lambda>e. cells e ''Comments'') (entries d) =
          map (\<lambda>r. r ''Comments'')
            (filter (\<lambda>r. parse_date iso_lib blank_row_sheet r \<noteq> None) (rows blank_row_sheet))
      \<and> filter (\<lambda>r. r ''Date'' = NaN)
           (filter (\<lambda>r. parse_date iso_lib blank_row_sheet r \<noteq> None) (rows blank_row_sheet)) = []
      \<and> filter (\<lambda>r. case r ''Date'' of Str s \<Rightarrow> list_all isspace s | _ \<Rightarrow> False)
           (filter (\<lambda>r. parse_date iso_lib blank_row_sheet r \<noteq> None) (rows blank_row_sheet)) = []
      \<and> (\<forall>p. data_processing iso_lib blank_row_sheet = Inr p \<longrightarrow> df p = d)
      \<and> (\<forall>inp q. filtering iso_lib d inp = Inr q \<longrightarrow>
            set (activity_df q) \<subseteq> set (chart_df q) \<and> set (chart_df q) \<subseteq> set (entries d)))"
proof -
  have 1: "''Date'' \<in> set (columns blank_row_sheet)" by (simp add: blank_row_sheet_def form_columns_def)
  have 2: "\<forall>col. to_datetime iso_lib col [] = None"
    by (simp add: iso_lib_def iso_to_datetime_def iso_date_def)
  have 3: "\<forall>col. to_datetime iso_lib col ''nan'' = None"
    by (simp add: iso_lib_def iso_to_datetime_def iso_date_def)
  have 4: "''Comments'' \<notin> set num_cols" by (simp add: num_cols_def)
  have 5: "''Comments'' \<notin> set bool_cols" by (simp add: bool_cols_def)
  from date_drop_law [OF 1 2 3 4 5] 1 2 3 4 5 show ?thesis by blast
qed

section \<open>The latest entry\<close>

text \<open>
  Claim C7, as the code has it. For a table with at least one row and a Comments column,
  whatever order the sort gives rows of equal date, the latest entry is a row of the table
  with the greatest date, and the banner shows the comment of that row exactly when the
  comment is not the placeholder \<^verbatim>\<open>N/A\<close> (and not empty, which a comment read from the
  sheet is not). Which of several rows of the greatest date it is the script leaves to the
  sort, which is not stable: it is not the last in sheet order, and where the sort keeps
  rows of equal key in order it is the first.
\<close>

theorem latest_entry_has_latest_date:
  assumes "entries d \<noteq> []" and "''Comments'' \<in> set (tcolumns d)"
    and "is_argsort (map Date (rev (entries d))) (argsort L (map Date (rev (entries d))))"
  shows "\<exists>e. latest_entry L d = Inr e
      \<and> e \<in> set (entries d)
      \<and> list_all (\<lambda>x. Date x \<le> Date e) (entries d)
      \<and> recent_comment_banner L d =
          Inr (if truthy (cells e ''Comments'') \<and> cells e ''Comments'' \<noteq> Str ''N/A''
               then Some (Date_Only e, cells e ''Comments'') else None)
      \<and> (argsort L (map Date (rev (entries d))) = stable_argsort (map Date (rev (entries d)))
           \<longrightarrow> find (\<lambda>x. Date x = Date e) (entries d) = Some e)"
proof -
  from sort_values_desc_first [OF assms(1,3)]
  obtain e es where sv: "sort_values_desc L Date (entries d) = e # es"
    and mem: "e \<in> set (entries d)" and top: "\<forall>x \<in> set (entries d). Date x \<le> Date e"
    by blast
  have le: "latest_entry L d = Inr e" by (simp add: latest_entry_def sv)
  have b: "recent_comment_banner L d =
          Inr (if truthy (cells e ''Comments'') \<and> cells e ''Comments'' \<noteq> Str ''N/A''
               then Some (Date_Only e, cells e ''Comments'') else None)"
    using assms(2) by (simp add: recent_comment_banner_def le getitem_def show_banner_def)
  have first: "find (\<lambda>x. Date x = Date e) (entries d) = Some e"
    if st: "argsort L (map Date (rev (entries d))) = stable_argsort (map Date (rev (entries d)))"
  proof -
    have "e = last (sort_key Date (rev (entries d)))"
      using sv unfolding sort_values_desc_stable [OF st] latest_entry_last [OF assms(1)]
      by simp
    from last_sort_key(3) [OF assms(1) this] show ?thesis .
  qed
  from le mem top b first show ?thesis by (auto simp: list_all_iff)
qed

theorem latest_entry_has_latest_date_witness:
  "entries same_day_table \<noteq> [] \<and> ''Comments'' \<in> set (tcolumns same_day_table)
   \<and> is_argsort (map Date (rev (entries same_day_table)))
        (argsort iso_lib (map Date (rev (entries same_day_table))))
   \<and> argsort iso_lib (map Date (rev (entries same_day_table))) =
        stable_argsort (map Date (rev (entries same_day_table)))
   \<and> (\<exists>e. latest_entry iso_lib same_day_table = Inr e
      \<and> e \<in> set (entries same_day_table)
      \<and> list_all (\<lambda>x. Date x \<le> Date e) (entries same_day_table)
      \<and> recent_comment_banner iso_lib same_day_table =
          Inr (if truthy (cells e ''Comments'') \<and> cells e ''Comments'' \<noteq> Str ''N/A''
               then Some (Date_Only e, cells e ''Comments'') else None)
      \<and> find (\<lambda>x. Date x = Date e) (entries same_day_table) = Some e)"
proof -
  have 1: "entries same_day_table \<noteq> []" by (simp add: same_day_table_def)
  have 2: "''Comments'' \<in> set (tcolumns same_day_table)" by (simp add: same_day_table_def)
  have 4: "argsort iso_lib (map Date (rev (entries same_day_table))) =
        stable_argsort (map Date (rev (entries same_day_table)))"
    by (simp add: iso_lib_def)
  have 3: "is_argsort (map Date (rev (entries same_day_table)))
        (argsort iso_lib (map Date (rev (entries same_day_table))))"
    unfolding 4 by (rule is_argsort_stable)
  from latest_entry_has_latest_date [OF 1 2 3] 1 2 3 4 show ?thesis by blast
qed

text \<open>
  The claim as stated fails on two entries of one day: the latest entry is the first of
  them in sheet order (\<^verbatim>\<open>morning\<close>), not the last.
\<close>

theorem latest_entry_counterexample:
  "map_sum id (\<lambda>e. cells e ''Comments'') (latest_entry iso_lib same_day_table) =
     Inr (Str ''morning'')
   \<and> map (\<lambda>e. (Date e, cells e ''Comments'')) (entries same_day_table) =
       [(20089 * ns_per_day, Str ''morning''), (20089 * ns_per_day, Str ''evening'')]"
  by code_simp

section \<open>Trend data\<close>

text \<open>
  Claim C8, as the code has it. For a column the table has, the data of a trend chart are
  exactly the rows of \<^verbatim>\<open>chart_df\<close> whose value in the column is greater than 0, in the
  order they have in \<^verbatim>\<open>chart_df\<close> (sheet order), each as the point of its day and
  its value: every point has a value greater than 0, and the points are in ascending date
  order when the rows of \<^verbatim>\<open>chart_df\<close> are; the script does not sort them.
\<close>

theorem trend_rows_in_sheet_order:
  assumes "col \<in> set cols"
  shows "trend_data cols chart col = Inr (filter (\<lambda>e. 0 < num_val (cells e col)) chart)
     \<and> trend_chart cols chart col =
         Inr (if filter (\<lambda>e. 0 < num_val (cells e col)) chart = [] then None
              else Some (map (\<lambda>e. (Date_Only e, num_val (cells e col)))
                           (filter (\<lambda>e. 0 < num_val (cells e col)) chart)))
     \<and> list_all (\<lambda>p. 0 < snd p)
          (chart_points col (filter (\<lambda>e. 0 < num_val (cells e col)) chart))
     \<and> (sorted (map Date_Only chart) \<longrightarrow>
          sorted (map fst (chart_points col
             (filter (\<lambda>e. 0 < num_val (cells e col)) chart))))
     \<and> num_val (Num x) = x"
proof -
  have pos: "gt0 c = (0 < num_val c)" for c by (cases c) auto
  have s: "sorted (map Date_Only chart) \<Longrightarrow>
       sorted (map Date_Only (filter (\<lambda>e. 0 < num_val (cells e col)) chart))"
    by (rule sorted_filter)
  show ?thesis
    using assms s
    by (auto simp: trend_data_def trend_chart_def and_then_def chart_points_def list_all_iff
        o_def pos)
qed

theorem trend_rows_in_sheet_order_witness:
  "''Weight'' \<in> set [''Date'', ''Weight'', ''Comments'', ''Date_Only'']
   \<and> trend_data [''Date'', ''Weight'', ''Comments'', ''Date_Only'']
        (an_entry 3 0 ''rest'' # rev unordered_chart) ''Weight'' = Inr (rev unordered_chart)
   \<and> trend_chart [''Date'', ''Weight'', ''Comments'', ''Date_Only'']
        (an_entry 3 0 ''rest'' # rev unordered_chart) ''Weight'' =
       Inr (Some [(19875, 82), (20089, 80)])
   \<and> sorted (map Date_Only (an_entry 3 0 ''rest'' # rev unordered_chart))
   \<and> sorted (map fst (chart_points ''Weight''
        (filter (\<lambda>e. 0 < num_val (cells e ''Weight''))
           (an_entry 3 0 ''rest'' # rev unordered_chart))))"
  using trend_rows_in_sheet_order [of "''Weight''"
      "[''Date'', ''Weight'', ''Comments'', ''Date_Only'']"
      "an_entry 3 0 ''rest'' # rev unordered_chart"]
  by (simp add: unordered_chart_def an_entry_def row_of_def chart_points_def)

text \<open>
  The claim as stated fails on two entries entered out of date order: the points of the
  weight chart are in sheet order, the later date first.
\<close>

theorem trend_counterexample:
  "trend_chart [''Date'', ''Weight'', ''Comments'', ''Date_Only''] unordered_chart ''Weight'' =
     Inr (Some [(20089, 80), (19875, 82)])
   \<and> \<not> sorted (map fst [(20089 :: int, 80 :: rat), (19875, 82)])"
  by code_simp

section \<open>The password gate\<close>

text \<open>
  Claim C10. A run touches the sheet exactly when \<^verbatim>\<open>check_password\<close> is true: the read
  and both writes are under line 33. So in a session that starts without a correct
  password, as long as no text typed into the password field is the password of the
  secrets, the sheet stays as it was and every run reads nothing, writes nothing and
  shows no data.
\<close>

theorem no_sheet_io_before_password:
  assumes "\<not> check_password (state w)"
    and "list_all (\<lambda>ev. case typed ev of None \<Rightarrow> True | Some pw \<Rightarrow> \<not> right_password sec pw) evs"
  shows "(trace (script L ss stored inp) = []) = (\<not> check_password ss)
     \<and> sheet (fst (session L sec w evs)) = sheet w
     \<and> list_all (\<lambda>out. trace out = [] \<and> result out = Inr None) (snd (session L sec w evs))
     \<and> length (snd (session L sec w evs)) = length evs"
  using session_locked [OF assms, of L] trace_main [of L stored inp]
  by (simp add: script_def)

theorem no_sheet_io_before_password_witness:
  "\<not> check_password (state \<lparr>state = new_session, sheet = window_sheet\<rparr>)
   \<and> list_all (\<lambda>ev. case typed ev of None \<Rightarrow> True | Some pw \<Rightarrow> \<not> right_password one_secret pw)
        [\<lparr>typed = Some ''guess'', ui = window_inputs Full_History, sheet_up = True\<rparr>,
         \<lparr>typed = None, ui = window_inputs Last_Week, sheet_up = True\<rparr>]
   \<and> (trace (script iso_lib signed_in (Some window_sheet) (window_inputs Full_History)) = [])
       = (\<not> check_password signed_in)
   \<and> sheet (fst (session iso_lib one_secret \<lparr>state = new_session, sheet = window_sheet\<rparr>
        [\<lparr>typed = Some ''guess'', ui = window_inputs Full_History, sheet_up = True\<rparr>,
         \<lparr>typed = None, ui = window_inputs Last_Week, sheet_up = True\<rparr>])) =
       sheet \<lparr>state = new_session, sheet = window_sheet\<rparr>
   \<and> list_all (\<lambda>out. trace out = [] \<and> result out = Inr None)
        (snd (session iso_lib one_secret \<lparr>state = new_session, sheet = window_sheet\<rparr>
        [\<lparr>typed = Some ''guess'', ui = window_inputs Full_History, sheet_up = True\<rparr>,
         \<lparr>typed = None, ui = window_inputs Last_Week, sheet_up = True\<rparr>]))
   \<and> length (snd (session iso_lib one_secret \<lparr>state = new_session, sheet = window_sheet\<rparr>
        [\<lparr>typed = Some ''guess'', ui = window_inputs Full_History, sheet_up = True\<rparr>,
         \<lparr>typed = None, ui = window_inputs Last_Week, sheet_up = True\<rparr>])) =
       length [\<lparr>typed = Some ''guess'', ui = window_inputs Full_History, sheet_up = True\<rparr>,
         \<lparr>typed = None, ui = window_inputs Last_Week, sheet_up = True\<rparr>]"
proof -
  have 1: "\<not> check_password (state \<lparr>state = new_session, sheet = window_sheet\<rparr>)"
    by (simp add: check_password_def new_session_def)
  have 2: "list_all (\<lambda>ev. case typed ev of None \<Rightarrow> True | Some pw \<Rightarrow> \<not> right_password one_secret pw)
        [\<lparr>typed = Some ''guess'', ui = window_inputs Full_History, sheet_up = True\<rparr>,
         \<lparr>typed = None, ui = window_inputs Last_Week, sheet_up = True\<rparr>]"
    by (simp add: right_password_def one_secret_def)
  from no_sheet_io_before_password [OF 1 2, of iso_lib signed_in "Some window_sheet"
      "window_inputs Full_History"] 1 2
  show ?thesis by (elim conjE) (intro conjI; assumption)
qed

section \<open>Empty input\<close>

text \<open>
  Claim C1 says that no operation raises on an input without rows. The script raises on
  two of the three kinds of such input. With a sheet that has no rows, and when the read
  fails, nothing binds \<^verbatim>\<open>chart_df\<close> and line 162 raises \<^verbatim>\<open>NameError\<close>. With a
  sheet none of whose dates parses, \<^verbatim>\<open>.iloc[0]\<close> at line 74 raises
  \<^verbatim>\<open>IndexError\<close>, before the guard \<^verbatim>\<open>if not df.empty\<close> of line 82. Where a filter
  leaves no row the script does what the claim says: the sums and counts are 0 and no
  chart is drawn.
\<close>

theorem empty_input_raises:
  "raised (script iso_lib signed_in (Some empty_sheet) (window_inputs Full_History)) =
     Some (NameError ''chart_df'')
   \<and> raised (script iso_lib signed_in None (window_inputs Full_History)) =
     Some (NameError ''chart_df'')
   \<and> raised (script iso_lib signed_in (Some undated_sheet) (window_inputs Full_History)) =
     Some IndexError
   \<and> map_sum id (\<lambda>q. (length (activity_df q), cardio_val q, period_cardio_sessions q))
       (filtering iso_lib window_table
          ((window_inputs Full_History)\<lparr>selected_type := ''Swim''\<rparr>)) = Inr (0, 0, 0)
   \<and> progress_trends (tcolumns window_table) [] = Inr None"
proof -
  have 1: "raised (script iso_lib signed_in (Some empty_sheet) (window_inputs Full_History)) =
     Some (NameError ''chart_df'')" by code_simp
  have 2: "raised (script iso_lib signed_in None (window_inputs Full_History)) =
     Some (NameError ''chart_df'')" by code_simp
  have 3: "raised (script iso_lib signed_in (Some undated_sheet) (window_inputs Full_History)) =
     Some IndexError" by code_simp
  have 4: "map_sum id (\<lambda>q. (length (activity_df q), cardio_val q, period_cardio_sessions q))
       (filtering iso_lib window_table
          ((window_inputs Full_History)\<lparr>selected_type := ''Swim''\<rparr>)) = Inr (0, 0, 0)"
    by code_simp
  have 5: "progress_trends (tcolumns window_table) [] = Inr None"
    by (simp add: progress_trends_def)
  from 1 2 3 4 5 show ?thesis by simp
qed

section \<open>The time view\<close>

text \<open>
  Claim C2 says that Last Week, Last Month and Last Year keep the rows of the last 7, 30
  and 365 days. On the entries of the specification's example, seen on 2025-01-10, each of
  the three views raises \<^verbatim>\<open>NameError\<close>: lines 130, 132 and 134 call
  \<^verbatim>\<open>timedelta\<close>, which line 4 does not import. Full History keeps the three rows.
\<close>

theorem time_view_raises:
  "raised (script iso_lib signed_in (Some window_sheet) (window_inputs Last_Week)) =
     Some (NameError ''timedelta'')
   \<and> raised (script iso_lib signed_in (Some window_sheet) (window_inputs Last_Month)) =
     Some (NameError ''timedelta'')
   \<and> raised (script iso_lib signed_in (Some window_sheet) (window_inputs Last_Year)) =
     Some (NameError ''timedelta'')
   \<and> map_sum id (\<lambda>q. map Date_Only (chart_df q))
       (filtering iso_lib window_table (window_inputs Full_History)) =
     Inr [19358, 19875, 20089]
   \<and> map iso_date [''2023-01-01'', ''2024-06-01'', ''2025-01-01'', ''2025-01-10''] =
       [Some 19358, Some 19875, Some 20089, Some 20098]"
proof -
  have 1: "map_sum id (\<lambda>q. map Date_Only (chart_df q))
       (filtering iso_lib window_table (window_inputs Full_History)) =
     Inr [19358, 19875, 20089]"
    by code_simp
  show ?thesis
    by (simp add: raised_script [OF signed_in_ok sections_window] 1 iso_dates)
qed

section \<open>The concrete scenario\<close>

text \<open>
  Claim C3, as the code has it. On the three rows of the scenario the processed table has
  2 rows (the row dated \<^verbatim>\<open>bad\<close> is dropped), \<^verbatim>\<open>get_sum("Pullups")\<close> is 12, and
  \<^verbatim>\<open>get_cardio_sessions()\<close> is 2: the blank cardio type of the first row is filled with
  \<^verbatim>\<open>N/A\<close> when the sheet is read, and the count leaves out \<^verbatim>\<open>None\<close> only. (Were
  the blank cell the empty text, it would stay the empty text and be counted just the
  same.)
\<close>

theorem scenario_totals:
  "map_sum id (\<lambda>d. (length (entries d), get_sum d ''Pullups'', get_cardio_sessions d))
     (normalize_df iso_lib (read_raw iso_lib (Some scenario_sheet))) = Inr (2, 12, 2)
   \<and> map_sum id (\<lambda>d. map (\<lambda>e. cells e ''Cardio Type'') (entries d))
     (normalize_df iso_lib (read_raw iso_lib (Some scenario_sheet))) =
       Inr [Str ''N/A'', Str ''Run'']
   \<and> map_sum id (\<lambda>d. (length (entries d), get_sum d ''Pullups'', get_cardio_sessions d))
     (normalize_df iso_lib (read_raw iso_lib (Some scenario_sheet_text))) = Inr (2, 12, 2)"
proof -
  have 1: "map_sum id (\<lambda>d. (length (entries d), get_sum d ''Pullups'', get_cardio_sessions d))
     (normalize_df iso_lib (read_raw iso_lib (Some scenario_sheet))) = Inr (2, 12, 2)"
    by code_simp
  have 3: "map_sum id (\<lambda>d. (length (entries d), get_sum d ''Pullups'', get_cardio_sessions d))
     (normalize_df iso_lib (read_raw iso_lib (Some scenario_sheet_text))) = Inr (2, 12, 2)"
    by code_simp
  have 2: "map_sum id (\<lambda>d. map (\<lambda>e. cells e ''Cardio Type'') (entries d))
     (normalize_df iso_lib (read_raw iso_lib (Some scenario_sheet))) =
       Inr [Str ''N/A'', Str ''Run'']"
    by code_simp
  from 1 2 3 show ?thesis by simp
qed

text \<open>The claim as stated fails: the count of cardio sessions is not 1.\<close>

theorem scenario_counterexample:
  "map_sum id get_cardio_sessions
     (normalize_df iso_lib (read_raw iso_lib (Some scenario_sheet))) \<noteq> Inr 1"
  by code_simp

section \<open>What the write paths persist\<close>

text \<open>
  Claim C5 says that an append or a delete writes back the table as it was changed when
  read: blank cells of the three text columns as \<^verbatim>\<open>N/A\<close>, and rows of blank cells
  removed. On a sheet with a row of blank cells and a Comments column the written table
  has the blank cells of the text columns as \<^verbatim>\<open>N/A\<close>, and it still has the blank row:
  the fill of lines 44 to 46 runs before \<^verbatim>\<open>dropna(how='all')\<close> of line 49, so the row
  is no longer all missing when line 49 looks at it. The fill also runs before the headers
  are trimmed (line 48): under a header \<^verbatim>\<open>Comments\<close> followed by a blank the cells stay
  missing.
\<close>

theorem blank_row_written_back:
  "map_option (\<lambda>t. map (\<lambda>r. map r [''Date'', ''Cardio Type'', ''Comments'']) (rows t))
     (written (trace (script iso_lib signed_in (Some blank_row_sheet)
        (blank_row_inputs\<lparr>submitted := Some new_entry\<rparr>)))) =
     Some [[Str ''2025-01-01'', Str ''Skip'', Str ''new year''],
           [NaN, Str ''N/A'', Str ''N/A''],
           [Str ''2025-01-02'', Str ''Run'', Str ''second''],
           [Str ''2025-01-10'', Str ''None'', Str ''third'']]
   \<and> map_option (\<lambda>t. map (\<lambda>r. map r [''Date'', ''Cardio Type'', ''Comments'']) (rows t))
     (written (trace (script iso_lib signed_in (Some blank_row_sheet)
        (blank_row_inputs\<lparr>delete_clicked := True\<rparr>)))) =
     Some [[Str ''2025-01-01'', Str ''Skip'', Str ''new year''],
           [NaN, Str ''N/A'', Str ''N/A'']]
   \<and> map (all_missing (columns blank_row_sheet)) (rows blank_row_sheet) = [False, True, False]
   \<and> columns (read_raw iso_lib (Some spaced_header_sheet)) = [''Date'', ''Comments'']
   \<and> map (\<lambda>r. map r [''Date'', ''Comments''])
         (rows (read_raw iso_lib (Some spaced_header_sheet))) = [[Str ''2025-01-01'', NaN]]"
proof -
  have 4: "columns (read_raw iso_lib (Some spaced_header_sheet)) = [''Date'', ''Comments'']"
    by code_simp
  have 5: "map (\<lambda>r. map r [''Date'', ''Comments''])
         (rows (read_raw iso_lib (Some spaced_header_sheet))) = [[Str ''2025-01-01'', NaN]]"
    by code_simp
  have 1: "view_opt (blank_row_inputs\<lparr>submitted := Some new_entry\<rparr>) = Full_History"
    and 2: "view_opt (blank_row_inputs\<lparr>delete_clicked := True\<rparr>) = Full_History"
    by (simp_all add: blank_row_inputs_def)
  have 3: "map (all_missing (columns blank_row_sheet)) (rows blank_row_sheet) =
      [False, True, False]"
    by (simp add: blank_row_sheet_def all_missing_def form_columns_def sheet_row_def row_of_def)
  have 6: "map_option (\<lambda>t. map (\<lambda>r. map r [''Date'', ''Cardio Type'', ''Comments'']) (rows t))
     (written (trace (script iso_lib signed_in (Some blank_row_sheet)
        (blank_row_inputs\<lparr>submitted := Some new_entry\<rparr>)))) =
     Some [[Str ''2025-01-01'', Str ''Skip'', Str ''new year''],
           [NaN, Str ''N/A'', Str ''N/A''],
           [Str ''2025-01-02'', Str ''Run'', Str ''second''],
           [Str ''2025-01-10'', Str ''None'', Str ''third'']]
   \<and> map_option (\<lambda>t. map (\<lambda>r. map r [''Date'', ''Cardio Type'', ''Comments'']) (rows t))
     (written (trace (script iso_lib signed_in (Some blank_row_sheet)
        (blank_row_inputs\<lparr>delete_clicked := True\<rparr>)))) =
     Some [[Str ''2025-01-01'', Str ''Skip'', Str ''new year''],
           [NaN, Str ''N/A'', Str ''N/A'']]"
    unfolding blank_row_run [OF 1] blank_row_run [OF 2] read_blank_row
    by (simp add: data_management_def blank_row_inputs_def append_entry_def pd_concat_def
        delete_last_entry_def df_empty_def iloc_drop_last_def new_data_def new_entry_def
        form_columns_def sheet_row_def row_of_def iso_lib_def strftime_new_entry)
  from 3 4 5 6 show ?thesis by simp
qed

section \<open>Missing columns\<close>

text \<open>
  Claim C6 says that every aggregate degrades to its default when a column other than
  Date is absent. The lifetime totals do (\<^verbatim>\<open>get_sum\<close> and \<^verbatim>\<open>get_count\<close> test
  \<^verbatim>\<open>col in df.columns\<close>). The banner, the period summary and the trend data read their
  columns without the test and raise \<^verbatim>\<open>KeyError\<close>: on the sheet of the scenario, which
  has the columns Date, Pullups, Cardio Type and Cardio Min/Reps, the script ends at line 76
  on \<^verbatim>\<open>Comments\<close>; the period summary of its table raises on \<^verbatim>\<open>Squats\<close> and the
  weight trend on \<^verbatim>\<open>Weight\<close>.
\<close>

theorem missing_column_raises:
  "raised (script iso_lib signed_in (Some scenario_sheet) (window_inputs Full_History)) =
     Some (KeyError ''Comments'')
   \<and> and_then (normalize_df iso_lib (read_raw iso_lib (Some scenario_sheet)))
        (\<lambda>d. map_sum id (\<lambda>q. ()) (filtering iso_lib d (window_inputs Full_History))) =
     Inl (KeyError ''Squats'')
   \<and> and_then (normalize_df iso_lib (read_raw iso_lib (Some scenario_sheet)))
        (\<lambda>d. map_sum id length (trend_data (tcolumns d) (entries d) ''Weight'')) =
     Inl (KeyError ''Weight'')
   \<and> map_sum id (\<lambda>d. (get_sum d ''Squats'', get_count d ''Abs''))
       (normalize_df iso_lib (read_raw iso_lib (Some scenario_sheet))) = Inr (0, 0)"
proof -
  have 1: "raised (script iso_lib signed_in (Some scenario_sheet) (window_inputs Full_History)) =
     Some (KeyError ''Comments'')" by code_simp
  have 2: "and_then (normalize_df iso_lib (read_raw iso_lib (Some scenario_sheet)))
        (\<lambda>d. map_sum id (\<lambda>q. ()) (filtering iso_lib d (window_inputs Full_History))) =
     Inl (KeyError ''Squats'')" by code_simp
  have 3: "and_then (normalize_df iso_lib (read_raw iso_lib (Some scenario_sheet)))
        (\<lambda>d. map_sum id length (trend_data (tcolumns d) (entries d) ''Weight'')) =
     Inl (KeyError ''Weight'')" by code_simp
  have 4: "map_sum id (\<lambda>d. (get_sum d ''Squats'', get_count d ''Abs''))
       (normalize_df iso_lib (read_raw iso_lib (Some scenario_sheet))) = Inr (0, 0)"
    by code_simp
  from 1 2 3 4 show ?thesis by simp
qed

end
